theory Spec2Isabelle
  imports Complex_Main
begin

section \<open>Strings and character classes\<close>

text \<open>
  A JavaScript string is a sequence of UTF-16 code units. A code unit is modelled by its
  numeric value, so that the Devanagari keywords of the classifier and the Unicode
  white space of \<^verbatim>\<open>\s\<close> are represented as the program sees them. \<open>str\<close> writes an
  ASCII literal.
\<close>

type_synonym jschar = nat
type_synonym jsstring = "jschar list"

definition str :: "string \<Rightarrow> jsstring" where
  "str s = map of_char s"

text \<open>The regular expression classes \<^verbatim>\<open>\d\<close>, \<^verbatim>\<open>\w\<close> and \<^verbatim>\<open>\s\<close> (no \<^verbatim>\<open>u\<close> flag anywhere in
  the source, so \<^verbatim>\<open>\w\<close> is ASCII only).\<close>

definition isDigit :: "jschar \<Rightarrow> bool" where
  "isDigit c = (48 \<le> c \<and> c \<le> 57)"

definition isWord :: "jschar \<Rightarrow> bool" where
  "isWord c = ((48 \<le> c \<and> c \<le> 57) \<or> (65 \<le> c \<and> c \<le> 90) \<or> c = 95 \<or> (97 \<le> c \<and> c \<le> 122))"

definition isSpace :: "jschar \<Rightarrow> bool" where
  "isSpace c = ((9 \<le> c \<and> c \<le> 13) \<or> c = 32 \<or> c = 160 \<or> c = 5760 \<or> (8192 \<le> c \<and> c \<le> 8202)
      \<or> c = 8232 \<or> c = 8233 \<or> c = 8239 \<or> c = 8287 \<or> c = 12288 \<or> c = 65279)"

text \<open>
  \<^verbatim>\<open>String.prototype.toLowerCase\<close>. The program looks at the lower-cased text only
  through \<^verbatim>\<open>\w\<close>, \<^verbatim>\<open>\s\<close>, \<^verbatim>\<open>\d\<close> and ASCII literals, so what matters is where ASCII letters
  come from: the ASCII capitals, U+0130 (whose lower case is \<^verbatim>\<open>i\<close> followed by U+0307) and
  U+212A (the Kelvin sign, whose lower case is \<^verbatim>\<open>k\<close>). Every other code unit outside ASCII
  lower-cases to code units outside ASCII that are not white space, and is left in place.
\<close>

definition lowerUnit :: "jschar \<Rightarrow> jsstring" where
  "lowerUnit c = (if 65 \<le> c \<and> c \<le> 90 then [c + 32]
                  else if c = 304 then [105, 775]
                  else if c = 8490 then [107]
                  else [c])"

definition toLowerCase :: "jsstring \<Rightarrow> jsstring" where
  "toLowerCase s = concat (map lowerUnit s)"

text \<open>\<^verbatim>\<open>.replace(/[^\w\s]/g, '')\<close>\<close>

definition removePunctuation :: "jsstring \<Rightarrow> jsstring" where
  "removePunctuation s = filter (\<lambda>c. isWord c \<or> isSpace c) s"

text \<open>\<^verbatim>\<open>.replace(/\s+/g, ' ')\<close>: every maximal run of white space becomes one space.\<close>

function normalizeSpaces :: "jsstring \<Rightarrow> jsstring" where
  "normalizeSpaces [] = []"
| "normalizeSpaces (c # cs) =
     (if isSpace c then 32 # normalizeSpaces (dropWhile isSpace cs)
      else c # normalizeSpaces cs)"
  by pat_completeness auto
termination
  by (relation "measure length") (auto simp: le_imp_less_Suc length_dropWhile_le)

text \<open>\<^verbatim>\<open>.trim()\<close> strips the same code units as \<^verbatim>\<open>\s\<close> from both ends.\<close>

definition trim :: "jsstring \<Rightarrow> jsstring" where
  "trim s = rev (dropWhile isSpace (rev (dropWhile isSpace s)))"

definition normalizeText :: "jsstring \<Rightarrow> jsstring" where
  "normalizeText text = trim (normalizeSpaces (removePunctuation (toLowerCase text)))"

text \<open>\<^verbatim>\<open>text.replace(/\D/g, '')\<close>\<close>

definition extractDigits :: "jsstring \<Rightarrow> jsstring" where
  "extractDigits text = filter isDigit text"


section \<open>Regular expressions\<close>

text \<open>
  The patterns of the source are written in the fragment below: a class of one code unit,
  a greedy bounded or unbounded repetition of a class, \<^verbatim>\<open>\b\<close>, sequence, alternation
  and capture groups (every quantifier of the source applies to a single class).
  A matcher state is the code unit before the current position, the rest of the input and
  the captures so far. \<open>ms\<close> lists the states in which a match of the pattern can end, in
  the order in which the backtracking matcher of JavaScript finds them, so the match
  the program sees at a position is the head of the list.
\<close>

datatype rx =
    Eps
  | Cls "jschar \<Rightarrow> bool"
  | Rep nat "nat option" "jschar \<Rightarrow> bool"
  | WordB
  | Seq rx rx
  | Alt rx rx
  | Grp nat rx

type_synonym captures = "nat \<Rightarrow> jsstring option"
type_synonym mstate = "jschar option \<times> jsstring \<times> captures"

fun rep :: "nat \<Rightarrow> nat option \<Rightarrow> (jschar \<Rightarrow> bool) \<Rightarrow> jschar option \<Rightarrow> jsstring
    \<Rightarrow> (jschar option \<times> jsstring) list" where
  "rep lo hi P p [] = (if lo = 0 then [(p, [])] else [])"
| "rep lo hi P p (c # cs) =
     (if P c \<and> hi \<noteq> Some 0 then rep (lo - 1) (map_option (\<lambda>h. h - 1) hi) P (Some c) cs else [])
     @ (if lo = 0 then [(p, c # cs)] else [])"

definition wordBefore :: "jschar option \<Rightarrow> bool" where
  "wordBefore p = (case p of None \<Rightarrow> False | Some c \<Rightarrow> isWord c)"

definition wordAfter :: "jsstring \<Rightarrow> bool" where
  "wordAfter s = (case s of [] \<Rightarrow> False | c # _ \<Rightarrow> isWord c)"

fun ms :: "rx \<Rightarrow> mstate \<Rightarrow> mstate list" where
  "ms Eps st = [st]"
| "ms (Cls P) (p, s, g) = (case s of [] \<Rightarrow> [] | c # cs \<Rightarrow> if P c then [(Some c, cs, g)] else [])"
| "ms (Rep lo hi P) (p, s, g) = map (\<lambda>(p', s'). (p', s', g)) (rep lo hi P p s)"
| "ms WordB (p, s, g) = (if wordBefore p \<noteq> wordAfter s then [(p, s, g)] else [])"
| "ms (Seq a b) st = concat (map (ms b) (ms a st))"
| "ms (Alt a b) st = ms a st @ ms b st"
| "ms (Grp k a) (p, s, g) =
     map (\<lambda>(p', s', g'). (p', s', g'(k \<mapsto> take (length s - length s') s))) (ms a (p, s, g))"

text \<open>The match at one position: the matched text and the captures.\<close>

definition matchAt :: "rx \<Rightarrow> jschar option \<Rightarrow> jsstring \<Rightarrow> (jsstring \<times> captures \<times> mstate) option" where
  "matchAt r p s =
     (case ms r (p, s, Map.empty) of
        [] \<Rightarrow> None
      | (p', s', g) # _ \<Rightarrow> Some (take (length s - length s') s, g, (p', s', g)))"

text \<open>\<^verbatim>\<open>text.match(r)\<close> and \<^verbatim>\<open>r.test(text)\<close> for a pattern without the \<^verbatim>\<open>g\<close> flag: the first
  position, from the left, at which the pattern matches.\<close>

fun execFrom :: "rx \<Rightarrow> jschar option \<Rightarrow> jsstring \<Rightarrow> (jsstring \<times> captures) option" where
  "execFrom r p [] = (case matchAt r p [] of None \<Rightarrow> None | Some (m, g, _) \<Rightarrow> Some (m, g))"
| "execFrom r p (c # cs) =
     (case matchAt r p (c # cs) of
        None \<Rightarrow> execFrom r (Some c) cs
      | Some (m, g, _) \<Rightarrow> Some (m, g))"

definition exec :: "rx \<Rightarrow> jsstring \<Rightarrow> (jsstring \<times> captures) option" where
  "exec r s = execFrom r None s"

definition test :: "rx \<Rightarrow> jsstring \<Rightarrow> bool" where
  "test r s = (exec r s \<noteq> None)"

text \<open>
  \<^verbatim>\<open>text.matchAll(r)\<close> for a pattern with the \<^verbatim>\<open>g\<close> flag: the successive matches from the
  left, each search starting where the previous match ended (one code unit further after
  an empty match).
\<close>

function matchAllFrom :: "rx \<Rightarrow> jschar option \<Rightarrow> jsstring \<Rightarrow> (jsstring \<times> captures) list" where
  "matchAllFrom r p [] = (case matchAt r p [] of None \<Rightarrow> [] | Some (m, g, _) \<Rightarrow> [(m, g)])"
| "matchAllFrom r p (c # cs) =
     (case matchAt r p (c # cs) of
        None \<Rightarrow> matchAllFrom r (Some c) cs
      | Some (m, g, (p', s', _)) \<Rightarrow>
          (m, g) # (if length s' < Suc (length cs) then matchAllFrom r p' s'
                    else matchAllFrom r (Some c) cs))"
  by pat_completeness auto
termination
  by (relation "measure (\<lambda>(r, p, s). length s)") auto

definition matchAll :: "rx \<Rightarrow> jsstring \<Rightarrow> (jsstring \<times> captures) list" where
  "matchAll r s = matchAllFrom r None s"

text \<open>\<^verbatim>\<open>text.match(r)\<close> for a pattern with the \<^verbatim>\<open>g\<close> flag gives the matched texts (\<^verbatim>\<open>null\<close> when
  there is none, which the callers treat as no iteration).\<close>

definition matchG :: "rx \<Rightarrow> jsstring \<Rightarrow> jsstring list" where
  "matchG r s = map fst (matchAll r s)"

text \<open>Notation for the patterns.\<close>

fun seqs :: "rx list \<Rightarrow> rx" where
  "seqs [] = Eps"
| "seqs [r] = r"
| "seqs (r # rs) = Seq r (seqs rs)"

definition digits :: "nat \<Rightarrow> nat \<Rightarrow> rx" where
  "digits lo hi = Rep lo (Some hi) isDigit"

definition opt :: "(jschar \<Rightarrow> bool) \<Rightarrow> rx" where
  "opt P = Rep 0 (Some 1) P"

definition many :: "(jschar \<Rightarrow> bool) \<Rightarrow> rx" where
  "many P = Rep 0 None P"

definition many1 :: "(jschar \<Rightarrow> bool) \<Rightarrow> rx" where
  "many1 P = Rep 1 None P"

definition chr :: "jschar \<Rightarrow> rx" where
  "chr c = Cls (\<lambda>x. x = c)"


section \<open>Similarity\<close>

text \<open>
  \<open>compareTwoStrings\<close> belongs to the package \<^verbatim>\<open>string-similarity\<close>, which the source
  imports and which is not part of the repository. The matchers take it as the
  parameter \<open>cmp\<close>, and what is proved about them holds for every such function.
\<close>

type_synonym comparer = "jsstring \<Rightarrow> jsstring \<Rightarrow> real"

definition getSimilarity :: "comparer \<Rightarrow> jsstring \<Rightarrow> jsstring \<Rightarrow> real" where
  "getSimilarity cmp str1 str2 = cmp (normalizeText str1) (normalizeText str2)"

text \<open>
  Modelled from the spec: the package's \<^verbatim>\<open>compareTwoStrings\<close> is missing from the
  sources. Section 4.2 of the specification describes a bigram-overlap coefficient of the
  Dice family with values in \<open>[0,1]\<close>: strings without a common pair of adjacent characters
  score 0, identical non-empty strings score 1, and two empty strings score 0. It serves
  as the concrete comparer wherever a closed instance is evaluated.
\<close>

fun bigrams :: "jsstring \<Rightarrow> (jschar \<times> jschar) list" where
  "bigrams (a # b # s) = (a, b) # bigrams (b # s)"
| "bigrams s = []"

fun overlap :: "(jschar \<times> jschar) list \<Rightarrow> (jschar \<times> jschar) list \<Rightarrow> nat" where
  "overlap [] ys = 0"
| "overlap (x # xs) ys = (if x \<in> set ys then Suc (overlap xs (remove1 x ys)) else overlap xs ys)"

definition compareTwoStrings :: comparer where
  "compareTwoStrings a b =
     (if a = b then (if a = [] then 0 else 1)
      else if bigrams a = [] \<or> bigrams b = [] then 0
      else 2 * real (overlap (bigrams a) (bigrams b)) / real (length (bigrams a) + length (bigrams b)))"


section \<open>Field matchers\<close>

text \<open>
  The result of a matcher is an object with the fields \<^verbatim>\<open>found\<close>, \<^verbatim>\<open>confidence\<close> and an
  optional extracted text, which the source names after the matcher (\<^verbatim>\<open>extractedName\<close>,
  \<^verbatim>\<open>extractedPhone\<close>, \<^verbatim>\<open>extractedDate\<close>, \<^verbatim>\<open>extractedAadhaar\<close>). The records below share
  \<open>confidence\<close> and \<open>found\<close> with the classifier's result and with the entries of the
  orchestrator. A JavaScript number is modelled as a real; every comparison of the source
  is between a literal and a quotient of small integers, a literal or a value of \<open>cmp\<close>.
\<close>

record scored =
  confidence :: real

record verdict = scored +
  found :: bool

record match_result = verdict +
  extracted :: "jsstring option"

definition notFound :: match_result where
  "notFound = \<lparr>confidence = 0, found = False, extracted = None\<rparr>"

text \<open>\<^verbatim>\<open>text.includes(part)\<close>, \<^verbatim>\<open>text.startsWith(part)\<close>, \<^verbatim>\<open>text.split(sep)\<close>, \<^verbatim>\<open>parts.join(sep)\<close>
  and \<^verbatim>\<open>text.slice(-n)\<close>.\<close>

fun startsWith :: "jsstring \<Rightarrow> jsstring \<Rightarrow> bool" where
  "startsWith s [] = True"
| "startsWith [] (c # cs) = False"
| "startsWith (a # s) (c # cs) = (a = c \<and> startsWith s cs)"

fun includes' :: "jsstring \<Rightarrow> jsstring \<Rightarrow> bool" where
  "includes' [] part = (part = [])"
| "includes' (c # cs) part = (startsWith (c # cs) part \<or> includes' cs part)"

fun splitBy :: "jschar \<Rightarrow> jsstring \<Rightarrow> jsstring list" where
  "splitBy sep [] = [[]]"
| "splitBy sep (c # cs) =
     (if c = sep then [] # splitBy sep cs
      else (case splitBy sep cs of [] \<Rightarrow> [[c]] | w # ws \<Rightarrow> (c # w) # ws))"

fun joinBy :: "jschar \<Rightarrow> jsstring list \<Rightarrow> jsstring" where
  "joinBy sep [] = []"
| "joinBy sep [w] = w"
| "joinBy sep (w # ws) = w @ sep # joinBy sep ws"

definition sliceLast :: "nat \<Rightarrow> jsstring \<Rightarrow> jsstring" where
  "sliceLast n s = drop (length s - n) s"

subsection \<open>\<^verbatim>\<open>findNameInText\<close>\<close>

text \<open>The sliding window over the words of the text, from index \<open>i\<close>; the state of the loop is
  \<^verbatim>\<open>bestMatch\<close> and \<^verbatim>\<open>bestMatchText\<close>.\<close>

function nameWindows :: "comparer \<Rightarrow> jsstring \<Rightarrow> jsstring list \<Rightarrow> nat \<Rightarrow> nat \<Rightarrow> real \<times> jsstring
    \<Rightarrow> real \<times> jsstring" where
  "nameWindows cmp normalizedName words n i (bestMatch, bestMatchText) =
     (if i + n < length words + 1
      then
        let window = joinBy 32 (take n (drop i words));
            similarity = getSimilarity cmp normalizedName window
        in nameWindows cmp normalizedName words n (i + 1)
             (if similarity > bestMatch then (similarity, window) else (bestMatch, bestMatchText))
      else (bestMatch, bestMatchText))"
  by pat_completeness auto
termination
  by (relation "measure (\<lambda>(cmp, normalizedName, words, n, i, best). length words + 1 - (i + n))") auto

definition findNameInText :: "comparer \<Rightarrow> jsstring \<Rightarrow> jsstring \<Rightarrow> real \<Rightarrow> match_result" where
  "findNameInText cmp name documentText threshold =
     (let normalizedName = normalizeText name;
          normalizedText = normalizeText documentText;
          nameParts = filter (\<lambda>part. length part > 1) (splitBy 32 normalizedName)
      in
      if length nameParts = 0 then \<lparr>confidence = 0, found = False, extracted = None\<rparr>
      else if includes' normalizedText normalizedName
      then \<lparr>confidence = 1, found = True, extracted = Some name\<rparr>
      else
        let foundParts = filter (\<lambda>part. includes' normalizedText part) nameParts;
            partialConfidence = real (length foundParts) / real (length nameParts)
        in
        if partialConfidence \<ge> 6 / 10
        then \<lparr>confidence = partialConfidence, found = True, extracted = Some (joinBy 32 foundParts)\<rparr>
        else
          let words = splitBy 32 normalizedText;
              best = nameWindows cmp normalizedName words (length nameParts) 0 (0, [])
          in \<lparr>confidence = fst best, found = (fst best \<ge> threshold),
               extracted = (if fst best \<ge> threshold then Some (snd best) else None)\<rparr>)"

subsection \<open>\<^verbatim>\<open>findPhoneInText\<close>\<close>

text \<open>\<^verbatim>\<open>/\b[6-9]\d{9}\b/g\<close>, \<^verbatim>\<open>/\b\d{10}\b/g\<close>, \<^verbatim>\<open>/\b\d{3}[\s-]?\d{3}[\s-]?\d{4}\b/g\<close> and
  \<^verbatim>\<open>/\b\+91[\s-]?\d{10}\b/g\<close>\<close>

definition spaceOrDash :: "jschar \<Rightarrow> bool" where
  "spaceOrDash c = (isSpace c \<or> c = 45)"

definition phoneMobile :: rx where
  "phoneMobile = seqs [WordB, Cls (\<lambda>c. 54 \<le> c \<and> c \<le> 57), digits 9 9, WordB]"

definition phoneTen :: rx where
  "phoneTen = seqs [WordB, digits 10 10, WordB]"

definition phoneFormatted :: rx where
  "phoneFormatted =
     seqs [WordB, digits 3 3, opt spaceOrDash, digits 3 3, opt spaceOrDash, digits 4 4, WordB]"

definition phoneCountry :: rx where
  "phoneCountry = seqs [WordB, chr 43, chr 57, chr 49, opt spaceOrDash, digits 10 10, WordB]"

definition phonePatterns :: "rx list" where
  "phonePatterns = [phoneMobile, phoneTen, phoneFormatted, phoneCountry]"

fun phoneMatches :: "comparer \<Rightarrow> jsstring \<Rightarrow> jsstring list \<Rightarrow> match_result option" where
  "phoneMatches cmp last10Digits [] = None"
| "phoneMatches cmp last10Digits (m # matches) =
     (let matchDigits = extractDigits m;
          matchLast10 = sliceLast 10 matchDigits
      in
      if matchLast10 = last10Digits
      then Some \<lparr>confidence = 1, found = True, extracted = Some m\<rparr>
      else
        let similarity = getSimilarity cmp last10Digits matchLast10 in
        if similarity \<ge> 8 / 10
        then Some \<lparr>confidence = similarity, found = True, extracted = Some m\<rparr>
        else phoneMatches cmp last10Digits matches)"

fun phoneLoop :: "comparer \<Rightarrow> jsstring \<Rightarrow> jsstring \<Rightarrow> rx list \<Rightarrow> match_result" where
  "phoneLoop cmp last10Digits documentText [] = notFound"
| "phoneLoop cmp last10Digits documentText (pattern # patterns) =
     (case phoneMatches cmp last10Digits (matchG pattern documentText) of
        Some r \<Rightarrow> r
      | None \<Rightarrow> phoneLoop cmp last10Digits documentText patterns)"

definition findPhoneInText :: "comparer \<Rightarrow> jsstring \<Rightarrow> jsstring \<Rightarrow> match_result" where
  "findPhoneInText cmp phoneInput documentText =
     (let inputDigits = extractDigits phoneInput;
          last10Digits = sliceLast 10 inputDigits
      in phoneLoop cmp last10Digits documentText phonePatterns)"

subsection \<open>\<^verbatim>\<open>findDateInText\<close>\<close>

text \<open>
  Literals of a pattern with the \<^verbatim>\<open>i\<close> flag; the patterns spell them in lower case. Without
  the \<^verbatim>\<open>u\<close> flag no code unit outside ASCII matches an ASCII letter.
\<close>

definition ci :: "jschar \<Rightarrow> rx" where
  "ci c = Cls (\<lambda>x. x = c \<or> (97 \<le> c \<and> c \<le> 122 \<and> x + 32 = c))"

definition lit :: "string \<Rightarrow> rx" where
  "lit s = seqs (map ci (str s))"

fun alts :: "rx list \<Rightarrow> rx" where
  "alts [] = Eps"
| "alts [r] = r"
| "alts (r # rs) = Alt r (alts rs)"

definition dateSep :: "jschar \<Rightarrow> bool" where
  "dateSep c = (c = 47 \<or> c = 45 \<or> c = 46)"

definition spaceOrColon :: "jschar \<Rightarrow> bool" where
  "spaceOrColon c = (isSpace c \<or> c = 58)"

definition monthName :: rx where
  "monthName = alts (map lit [''jan'', ''feb'', ''mar'', ''apr'', ''may'', ''jun'', ''jul'', ''aug'',
     ''sep'', ''oct'', ''nov'', ''dec''])"

definition numericDate :: rx where
  "numericDate = seqs [digits 1 2, Cls dateSep, digits 1 2, Cls dateSep, digits 2 4]"

text \<open>The five patterns of \<^verbatim>\<open>datePatterns\<close>, in the order of the source.\<close>

definition datePatterns :: "rx list" where
  "datePatterns =
    [seqs [WordB, numericDate, WordB],
     seqs [WordB, digits 1 2, many1 isSpace, Grp 1 monthName, many isWord, many1 isSpace,
           digits 2 4, WordB],
     seqs [WordB, Grp 1 monthName, many isWord, many1 isSpace, digits 1 2, opt (\<lambda>c. c = 44),
           many1 isSpace, digits 2 4, WordB],
     seqs [alts [lit ''dob'',
                 seqs [lit ''date'', many isSpace, lit ''of'', many isSpace, lit ''birth''],
                 seqs [lit ''birth'', many isSpace, lit ''date'']],
           many spaceOrColon, Grp 1 numericDate],
     seqs [lit ''year'', many isSpace, lit ''of'', many isSpace, lit ''birth'', many spaceOrColon,
           Grp 1 (digits 4 4)]]"

text \<open>\<^verbatim>\<open>match[1] || match[0]\<close>: the first capture group when it took part in the match and
  is not empty, the whole match otherwise.\<close>

definition dateTextOf :: "jsstring \<times> captures \<Rightarrow> jsstring" where
  "dateTextOf mt =
     (case snd mt 1 of
        None \<Rightarrow> fst mt
      | Some t \<Rightarrow> if t = [] then fst mt else t)"

fun dateMatches :: "comparer \<Rightarrow> jsstring \<Rightarrow> (jsstring \<times> captures) list \<Rightarrow> match_result option" where
  "dateMatches cmp inputDigits [] = None"
| "dateMatches cmp inputDigits (mt # matches) =
     (let dateText = dateTextOf mt;
          matchDigits = extractDigits dateText
      in
      if matchDigits = inputDigits
      then Some \<lparr>confidence = 1, found = True, extracted = Some dateText\<rparr>
      else if length matchDigits = 4 \<and> includes' inputDigits matchDigits
      then Some \<lparr>confidence = 8 / 10, found = True, extracted = Some dateText\<rparr>
      else
        let similarity = getSimilarity cmp inputDigits matchDigits in
        if similarity \<ge> 6 / 10
        then Some \<lparr>confidence = similarity, found = True, extracted = Some dateText\<rparr>
        else dateMatches cmp inputDigits matches)"

fun dateLoop :: "comparer \<Rightarrow> jsstring \<Rightarrow> jsstring \<Rightarrow> rx list \<Rightarrow> match_result" where
  "dateLoop cmp inputDigits documentText [] = notFound"
| "dateLoop cmp inputDigits documentText (pattern # patterns) =
     (case dateMatches cmp inputDigits (matchAll pattern documentText) of
        Some r \<Rightarrow> r
      | None \<Rightarrow> dateLoop cmp inputDigits documentText patterns)"

definition findDateInText :: "comparer \<Rightarrow> jsstring \<Rightarrow> jsstring \<Rightarrow> match_result" where
  "findDateInText cmp dateInput documentText =
     dateLoop cmp (extractDigits dateInput) documentText datePatterns"

subsection \<open>\<^verbatim>\<open>findAadhaarInText\<close>\<close>

text \<open>\<^verbatim>\<open>/\b\d{4}\s?\d{4}\s?\d{4}\b/g\<close> and \<^verbatim>\<open>/\b\d{12}\b/g\<close>\<close>

definition aadhaarGrouped :: rx where
  "aadhaarGrouped =
     seqs [WordB, digits 4 4, opt isSpace, digits 4 4, opt isSpace, digits 4 4, WordB]"

definition aadhaarPlain :: rx where
  "aadhaarPlain = seqs [WordB, digits 12 12, WordB]"

definition aadhaarPatterns :: "rx list" where
  "aadhaarPatterns = [aadhaarGrouped, aadhaarPlain]"

text \<open>The inner loop over the matches of one pattern; \<open>None\<close> when it ends without a return.\<close>

fun aadhaarMatches :: "comparer \<Rightarrow> jsstring \<Rightarrow> jsstring list \<Rightarrow> match_result option" where
  "aadhaarMatches cmp inputDigits [] = None"
| "aadhaarMatches cmp inputDigits (m # matches) =
     (let matchDigits = extractDigits m in
      if matchDigits = inputDigits
      then Some \<lparr>confidence = 1, found = True, extracted = Some m\<rparr>
      else
        let similarity = getSimilarity cmp inputDigits matchDigits in
        if similarity \<ge> 9 / 10
        then Some \<lparr>confidence = similarity, found = True, extracted = Some m\<rparr>
        else aadhaarMatches cmp inputDigits matches)"

text \<open>The outer loop over the patterns.\<close>

fun aadhaarLoop :: "comparer \<Rightarrow> jsstring \<Rightarrow> jsstring \<Rightarrow> rx list \<Rightarrow> match_result" where
  "aadhaarLoop cmp inputDigits documentText [] = notFound"
| "aadhaarLoop cmp inputDigits documentText (pattern # patterns) =
     (case aadhaarMatches cmp inputDigits (matchG pattern documentText) of
        Some r \<Rightarrow> r
      | None \<Rightarrow> aadhaarLoop cmp inputDigits documentText patterns)"

definition findAadhaarInText :: "comparer \<Rightarrow> jsstring \<Rightarrow> jsstring \<Rightarrow> match_result" where
  "findAadhaarInText cmp aadhaarInput documentText =
     aadhaarLoop cmp (extractDigits aadhaarInput) documentText aadhaarPatterns"


section \<open>Document classifier\<close>

record classification = scored +
  isAadhaar :: bool

text \<open>The last two keywords are the Devanagari spellings of the source, U+092D U+093E U+0930
  U+0924, a space, U+0938 U+0930 U+0915 U+093E U+0930, and U+0906 U+0927 U+093E U+0930.\<close>

definition aadhaarKeywords :: "jsstring list" where
  "aadhaarKeywords =
    [str ''aadhaar'', str ''aadhar'', str ''uidai'', str ''unique identification'',
     str ''government of india'',
     [2349, 2366, 2352, 2340, 32, 2360, 2352, 2325, 2366, 2352],
     [2310, 2343, 2366, 2352]]"

definition keywordMatches :: "jsstring \<Rightarrow> nat" where
  "keywordMatches normalizedText =
     length (filter (\<lambda>keyword. includes' normalizedText (normalizeText keyword)) aadhaarKeywords)"

definition isAadhaarDocument :: "jsstring \<Rightarrow> classification" where
  "isAadhaarDocument documentText =
     (let normalizedText = normalizeText documentText;
          hasAadhaarNumber = test aadhaarGrouped documentText;
          c = real (keywordMatches normalizedText) / real (length aadhaarKeywords)
                + (if hasAadhaarNumber then 3 / 10 else 0)
      in \<lparr>confidence = min c 1, isAadhaar = (c > 3 / 10)\<rparr>)"


section \<open>Orchestrator\<close>

text \<open>
  The form data that \<^verbatim>\<open>validateDocumentData\<close> reads, and the state it sets. Both the state and
  its entries have a field \<^verbatim>\<open>status\<close> in the source; the state's is \<open>overallStatus\<close> here. The
  fields of \<^verbatim>\<open>extractedData\<close> (\<^verbatim>\<open>name\<close>, \<^verbatim>\<open>idNumber\<close>, \<^verbatim>\<open>dateOfBirth\<close>, \<^verbatim>\<open>phone\<close>) carry the names
  of the matcher fields they are copied from. The entries \<^verbatim>\<open>validationResults\<close> are kept as a
  list of keys and values in insertion order. The states set while recognition is in
  progress (\<^verbatim>\<open>validating\<close> with a percentage) are not modelled.
\<close>

record form_data =
  name :: jsstring
  dateOfBirth :: jsstring
  idNumber :: jsstring
  emergencyContact :: jsstring

datatype overall = St_pending | St_validating | St_valid | St_invalid | St_warning

datatype severity = Sev_success | Sev_warning | Sev_error

text \<open>The message texts of the source. The text for a found field is built from the
  confidence (as \<^verbatim>\<open>Math.round(confidence * 100)\<close>, whose rounding of a double is not
  modelled); such a message carries the confidence itself.\<close>

datatype message =
    Msg_not_an_image
  | Msg_not_aadhaar
  | Msg_name_found real
  | Msg_name_missing
  | Msg_aadhaar_verified real
  | Msg_aadhaar_missing
  | Msg_dob_found real
  | Msg_dob_unclear
  | Msg_phone_found real
  | Msg_phone_hidden
  | Msg_unprocessable

datatype toast =
    Toast_invalid_file_type
  | Toast_invalid_document
  | Toast_verified
  | Toast_verified_with_warnings
  | Toast_validation_failed
  | Toast_processing_error

record field_validation = verdict +
  message :: message
  status :: severity

record extracted_data =
  extractedName :: "jsstring option"
  extractedAadhaar :: "jsstring option"
  extractedDate :: "jsstring option"
  extractedPhone :: "jsstring option"

record validation_result =
  overallStatus :: overall
  extractedData :: "extracted_data option"
  validationResults :: "(string \<times> field_validation) list"
  ocrText :: "jsstring option"

text \<open>What a run of \<^verbatim>\<open>validateDocumentData\<close> leaves behind: the state it sets last, the
  toast it shows, and the matchers it called, in the order of the calls.\<close>

datatype call = Call_isAadhaarDocument | Call_findNameInText | Call_findAadhaarInText
  | Call_findDateInText | Call_findPhoneInText

record outcome =
  documentValidation :: validation_result
  shown :: toast
  calls :: "call list"

text \<open>The result of \<^verbatim>\<open>Tesseract.recognize\<close>: it throws, or it gives a result whose text may
  be missing.\<close>

datatype ocr = Ocr_throws | Ocr_result "jsstring option"

definition nameValidation :: "match_result \<Rightarrow> field_validation" where
  "nameValidation nameResult =
     \<lparr>confidence = confidence nameResult, found = found nameResult,
      message = (if found nameResult then Msg_name_found (confidence nameResult)
                 else Msg_name_missing),
      status = (if found nameResult
                then (if confidence nameResult \<ge> 8 / 10 then Sev_success else Sev_warning)
                else Sev_error)\<rparr>"

definition idNumberValidation :: "match_result \<Rightarrow> field_validation" where
  "idNumberValidation aadhaarResult =
     \<lparr>confidence = confidence aadhaarResult, found = found aadhaarResult,
      message = (if found aadhaarResult then Msg_aadhaar_verified (confidence aadhaarResult)
                 else Msg_aadhaar_missing),
      status = (if found aadhaarResult
                then (if confidence aadhaarResult \<ge> 9 / 10 then Sev_success else Sev_warning)
                else Sev_error)\<rparr>"

definition dateOfBirthValidation :: "match_result \<Rightarrow> field_validation" where
  "dateOfBirthValidation dobResult =
     \<lparr>confidence = confidence dobResult, found = found dobResult,
      message = (if found dobResult then Msg_dob_found (confidence dobResult)
                 else Msg_dob_unclear),
      status = (if found dobResult
                then (if confidence dobResult \<ge> 7 / 10 then Sev_success else Sev_warning)
                else Sev_warning)\<rparr>"

definition phoneValidation :: "match_result \<Rightarrow> field_validation" where
  "phoneValidation phoneResult =
     \<lparr>confidence = confidence phoneResult, found = found phoneResult,
      message = (if found phoneResult then Msg_phone_found (confidence phoneResult)
                 else Msg_phone_hidden),
      status = (if found phoneResult then Sev_success else Sev_warning)\<rparr>"

definition criticalFields :: "string list" where
  "criticalFields = [''name'', ''idNumber'']"

text \<open>\<^verbatim>\<open>Determine overall status\<close>: the entries are kept in insertion order.\<close>

definition determineOverall :: "(string \<times> field_validation) list \<Rightarrow> overall" where
  "determineOverall results =
     (let criticalErrors =
            list_ex (\<lambda>field. case map_of results field of
                                None \<Rightarrow> False
                              | Some v \<Rightarrow> status v = Sev_error) criticalFields;
          hasWarnings = list_ex (\<lambda>result. status result = Sev_warning) (map snd results)
      in if criticalErrors then St_invalid
         else if hasWarnings then St_warning
         else St_valid)"

text \<open>The part of \<^verbatim>\<open>validateDocumentData\<close> after the four matchers have returned.\<close>

definition aggregate :: "match_result \<Rightarrow> match_result \<Rightarrow> match_result \<Rightarrow> match_result \<Rightarrow> jsstring
    \<Rightarrow> validation_result \<times> toast" where
  "aggregate nameResult aadhaarResult dobResult phoneResult rawText =
     (let results =
            [(''name'', nameValidation nameResult),
             (''idNumber'', idNumberValidation aadhaarResult),
             (''dateOfBirth'', dateOfBirthValidation dobResult),
             (''phone'', phoneValidation phoneResult)];
          overall = determineOverall results
      in (\<lparr>overallStatus = overall,
           extractedData = Some \<lparr>extractedName = extracted nameResult,
                                 extractedAadhaar = extracted aadhaarResult,
                                 extractedDate = extracted dobResult,
                                 extractedPhone = extracted phoneResult\<rparr>,
           validationResults = results,
           ocrText = Some rawText\<rparr>,
          if overall = St_valid then Toast_verified
          else if overall = St_warning then Toast_verified_with_warnings
          else Toast_validation_failed))"

definition validateDocumentData :: "comparer \<Rightarrow> form_data \<Rightarrow> jsstring \<Rightarrow> ocr \<Rightarrow> outcome" where
  "validateDocumentData cmp data fileType recognized =
     (if \<not> startsWith fileType (str ''image/'')
      then \<lparr>documentValidation =
              \<lparr>overallStatus = St_invalid, extractedData = None,
               validationResults =
                 [(''fileType'', \<lparr>confidence = 0, found = False, message = Msg_not_an_image,
                                  status = Sev_error\<rparr>)],
               ocrText = None\<rparr>,
            shown = Toast_invalid_file_type, calls = []\<rparr>
      else
        case recognized of
          Ocr_throws \<Rightarrow>
            \<lparr>documentValidation =
               \<lparr>overallStatus = St_invalid, extractedData = None,
                validationResults =
                  [(''ocr'', \<lparr>confidence = 0, found = False, message = Msg_unprocessable,
                              status = Sev_error\<rparr>)],
                ocrText = None\<rparr>,
             shown = Toast_processing_error, calls = []\<rparr>
        | Ocr_result recognizedText \<Rightarrow>
            let rawText = (case recognizedText of None \<Rightarrow> [] | Some t \<Rightarrow> t);
                aadhaarCheck = isAadhaarDocument rawText
            in
            if \<not> isAadhaar aadhaarCheck
            then \<lparr>documentValidation =
                    \<lparr>overallStatus = St_invalid, extractedData = None,
                     validationResults =
                       [(''documentType'',
                         \<lparr>confidence = confidence aadhaarCheck, found = False,
                          message = Msg_not_aadhaar, status = Sev_error\<rparr>)],
                     ocrText = Some rawText\<rparr>,
                  shown = Toast_invalid_document, calls = [Call_isAadhaarDocument]\<rparr>
            else
              let nameResult = findNameInText cmp (name data) rawText (7 / 10);
                  aadhaarResult = findAadhaarInText cmp (idNumber data) rawText;
                  dobResult = findDateInText cmp (dateOfBirth data) rawText;
                  phoneResult = findPhoneInText cmp (emergencyContact data) rawText;
                  final = aggregate nameResult aadhaarResult dobResult phoneResult rawText
              in \<lparr>documentValidation = fst final, shown = snd final,
                  calls = [Call_isAadhaarDocument, Call_findNameInText, Call_findAadhaarInText,
                           Call_findDateInText, Call_findPhoneInText]\<rparr>)"


section \<open>Notions used in the proofs\<close>

text \<open>The first state in which a match of a pattern ends.\<close>

definition first :: "rx \<Rightarrow> mstate \<Rightarrow> mstate option" where
  "first r st = (case ms r st of [] \<Rightarrow> None | x # _ \<Rightarrow> Some x)"

text \<open>The code unit before the position reached after reading \<open>s\<close>.\<close>

definition lastOr :: "jschar option \<Rightarrow> jsstring \<Rightarrow> jschar option" where
  "lastOr p s = (if s = [] then p else Some (last s))"

text \<open>The pattern \<open>r\<close> matches at no position of \<open>pre\<close>, in the text \<open>pre @ rest\<close> read after \<open>p\<close>.\<close>

fun noMatchIn :: "rx \<Rightarrow> jschar option \<Rightarrow> jsstring \<Rightarrow> jsstring \<Rightarrow> bool" where
  "noMatchIn r p [] rest = True"
| "noMatchIn r p (c # cs) rest =
     (matchAt r p (c # cs @ rest) = None \<and> noMatchIn r (Some c) cs rest)"

text \<open>The candidates of the phone matcher in the order in which its two loops visit them: the
  matches of the first pattern from left to right, then those of the second, and so on.\<close>

definition phoneCandidates :: "jsstring \<Rightarrow> jsstring list" where
  "phoneCandidates documentText =
     concat (map (\<lambda>pattern. matchG pattern documentText) phonePatterns)"

text \<open>Code units that can occur in normalised text: lower-case word characters and the space.\<close>

definition plain :: "jschar \<Rightarrow> bool" where
  "plain c = ((48 \<le> c \<and> c \<le> 57) \<or> c = 95 \<or> (97 \<le> c \<and> c \<le> 122) \<or> c = 32)"

text \<open>White space occurs only as single spaces.\<close>

fun spaced :: "jsstring \<Rightarrow> bool" where
  "spaced [] = True"
| "spaced [c] = (isSpace c \<longrightarrow> c = 32)"
| "spaced (c # d # s) = ((isSpace c \<longrightarrow> c = 32 \<and> \<not> isSpace d) \<and> spaced (d # s))"


section \<open>Evaluation\<close>

text \<open>The definitions that the simplifier unfolds to run the model on a concrete text.\<close>

lemmas text_defs = str_def isDigit_def isWord_def isSpace_def toLowerCase_def lowerUnit_def
  removePunctuation_def trim_def normalizeText_def extractDigits_def

declare nameWindows.simps [simp del]

lemmas rx_defs = wordBefore_def wordAfter_def matchAt_def exec_def test_def matchAll_def matchG_def
  digits_def opt_def many_def many1_def chr_def


section \<open>Normalisation is idempotent\<close>

lemma lowerUnit_not_upper: "c' \<in> set (lowerUnit c) \<Longrightarrow> \<not> (65 \<le> c' \<and> c' \<le> 90)"
  by (auto simp: lowerUnit_def split: if_splits)

lemma toLowerCase_not_upper: "c \<in> set (toLowerCase s) \<Longrightarrow> \<not> (65 \<le> c \<and> c \<le> 90)"
  by (auto simp: toLowerCase_def dest: lowerUnit_not_upper)

lemma removePunctuation_lower_plain:
  assumes "c \<in> set (removePunctuation (toLowerCase s))"
  shows "plain c \<or> isSpace c"
proof -
  from assms have "c \<in> set (toLowerCase s)" and "isWord c \<or> isSpace c"
    by (auto simp: removePunctuation_def)
  with toLowerCase_not_upper [of c s] show ?thesis
    by (auto simp: plain_def isWord_def)
qed

lemma set_normalizeSpaces: "set (normalizeSpaces s) \<subseteq> {c \<in> set s. \<not> isSpace c} \<union> {32}"
proof (induction s rule: normalizeSpaces.induct)
  case 1
  then show ?case by simp
next
  case (2 c cs)
  have "set (dropWhile isSpace cs) \<subseteq> set cs"
    by (simp add: set_dropWhileD subsetI)
  with 2 show ?case by (auto split: if_splits)
qed

lemma normalizeSpaces_hd:
  "normalizeSpaces (c # cs) \<noteq> [] \<and> hd (normalizeSpaces (c # cs)) = (if isSpace c then 32 else c)"
  by simp

lemma spaced_Cons_nonspace: "\<not> isSpace c \<Longrightarrow> spaced (c # s) = spaced s"
  by (cases s) auto

lemma spaced_Cons_space:
  "spaced (32 # s) = (s = [] \<or> (\<not> isSpace (hd s) \<and> spaced s))"
  by (cases s) (auto simp: isSpace_def)

lemma spaced_normalizeSpaces: "spaced (normalizeSpaces s)"
proof (induction s rule: normalizeSpaces.induct)
  case 1
  then show ?case by simp
next
  case (2 c cs)
  show ?case
  proof (cases "isSpace c")
    case True
    let ?r = "dropWhile isSpace cs"
    have "normalizeSpaces ?r = [] \<or> \<not> isSpace (hd (normalizeSpaces ?r))"
    proof (cases ?r)
      case Nil
      then show ?thesis by (metis normalizeSpaces.simps(1))
    next
      case (Cons a as)
      then have "\<not> isSpace a"
        by (metis hd_dropWhile list.sel(1) list.distinct(1))
      with Cons show ?thesis by simp
    qed
    with True 2 show ?thesis
      by (simp add: spaced_Cons_space)
  next
    case False
    with 2 show ?thesis
      by (simp add: spaced_Cons_nonspace)
  qed
qed

lemma normalizeSpaces_spaced: "spaced s \<Longrightarrow> normalizeSpaces s = s"
proof (induction s rule: spaced.induct)
  case 1
  then show ?case by simp
next
  case (2 c)
  then show ?case by simp
next
  case (3 c d s)
  then show ?case by (cases "isSpace c") auto
qed

lemma spaced_dropWhile: "spaced s \<Longrightarrow> spaced (dropWhile P s)"
proof (induction s rule: spaced.induct)
  case (3 c d s)
  then show ?case by (cases "P c") auto
qed auto

lemma spaced_butlast: "spaced s \<Longrightarrow> spaced (butlast s)"
proof (induction s rule: spaced.induct)
  case (3 c d s)
  then show ?case by (cases s) auto
qed auto

lemma rev_dropWhile_rev_snoc:
  "rev (dropWhile P (rev (s @ [c]))) = (if P c then rev (dropWhile P (rev s)) else s @ [c])"
  by simp

lemma spaced_dropTrailing: "spaced s \<Longrightarrow> spaced (rev (dropWhile P (rev s)))"
proof (induction s rule: rev_induct)
  case Nil
  then show ?case by simp
next
  case (snoc c s)
  from snoc.prems have "spaced s"
    using spaced_butlast [of "s @ [c]"] by simp
  with snoc show ?case by simp
qed

lemma spaced_trim: "spaced s \<Longrightarrow> spaced (trim s)"
  by (simp add: trim_def spaced_dropWhile spaced_dropTrailing)

lemma set_trim: "set (trim s) \<subseteq> set s"
proof -
  have "set (dropWhile isSpace (rev (dropWhile isSpace s))) \<subseteq> set (rev (dropWhile isSpace s))"
    by (meson set_dropWhileD subsetI)
  also have "\<dots> \<subseteq> set s"
    using set_dropWhileD by fastforce
  finally show ?thesis by (simp add: trim_def)
qed

lemma dropTrailing_ends:
  "rev (dropWhile P (rev s)) = [] \<or> \<not> P (last (rev (dropWhile P (rev s))))"
proof (cases "dropWhile P (rev s)")
  case Nil
  then show ?thesis by simp
next
  case (Cons a as)
  then have "\<not> P a" by (metis hd_dropWhile list.sel(1) list.distinct(1))
  with Cons show ?thesis by simp
qed

lemma dropTrailing_hd:
  "rev (dropWhile P (rev s)) \<noteq> [] \<Longrightarrow> hd (rev (dropWhile P (rev s))) = hd s"
proof (induction s rule: rev_induct)
  case Nil
  then show ?case by simp
next
  case (snoc c s)
  then show ?case by (cases s) (auto split: if_splits)
qed

lemma trim_ends: "trim s = [] \<or> (\<not> isSpace (hd (trim s)) \<and> \<not> isSpace (last (trim s)))"
proof (cases "trim s = []")
  case True
  then show ?thesis by simp
next
  case False
  let ?d = "dropWhile isSpace s"
  from False have ne: "rev (dropWhile isSpace (rev ?d)) \<noteq> []"
    by (simp add: trim_def)
  then have "?d \<noteq> []"
    by (metis dropWhile.simps(1) rev.simps(1))
  then have "\<not> isSpace (hd ?d)" by (rule hd_dropWhile)
  with dropTrailing_hd [OF ne] have "\<not> isSpace (hd (trim s))"
    by (simp add: trim_def)
  moreover from dropTrailing_ends [of isSpace ?d] ne have "\<not> isSpace (last (trim s))"
    unfolding trim_def by blast
  ultimately show ?thesis by simp
qed

lemma trim_fixed:
  assumes "s = [] \<or> (\<not> isSpace (hd s) \<and> \<not> isSpace (last s))"
  shows "trim s = s"
proof (cases s)
  case Nil
  then show ?thesis by (simp add: trim_def)
next
  case (Cons c cs)
  with assms have h: "\<not> isSpace c" and l: "\<not> isSpace (last s)" by auto
  from h Cons have "dropWhile isSpace s = s" by simp
  moreover from l have "\<not> isSpace (hd (rev s))"
    by (metis hd_rev)
  then have "dropWhile isSpace (rev s) = rev s"
    by (cases "rev s") auto
  ultimately show ?thesis by (simp add: trim_def)
qed

lemma plain_lowerUnit: "plain c \<Longrightarrow> lowerUnit c = [c]"
  by (auto simp: plain_def lowerUnit_def)

lemma toLowerCase_plain: "\<forall>c \<in> set s. plain c \<Longrightarrow> toLowerCase s = s"
  by (induction s) (auto simp: toLowerCase_def plain_lowerUnit)

lemma plain_kept: "plain c \<Longrightarrow> isWord c \<or> isSpace c"
  by (auto simp: plain_def isWord_def isSpace_def)

lemma removePunctuation_plain: "\<forall>c \<in> set s. plain c \<Longrightarrow> removePunctuation s = s"
  by (induction s) (auto simp: removePunctuation_def dest: plain_kept)

lemma normalizeText_plain: "c \<in> set (normalizeText text) \<Longrightarrow> plain c"
proof -
  assume "c \<in> set (normalizeText text)"
  then have "c \<in> set (normalizeSpaces (removePunctuation (toLowerCase text)))"
    using set_trim by (auto simp: normalizeText_def)
  then have "(c \<in> set (removePunctuation (toLowerCase text)) \<and> \<not> isSpace c) \<or> c = 32"
    using set_normalizeSpaces by fastforce
  then show "plain c"
    using removePunctuation_lower_plain [of c "text"] by (auto simp: plain_def)
qed

lemma normalizeText_spaced: "spaced (normalizeText text)"
  by (simp add: normalizeText_def spaced_trim spaced_normalizeSpaces)

lemma normalizeText_ends:
  "normalizeText text = [] \<or>
    (\<not> isSpace (hd (normalizeText text)) \<and> \<not> isSpace (last (normalizeText text)))"
  unfolding normalizeText_def by (rule trim_ends)

text \<open>Text that is already in normal form is left as it is.\<close>

lemma normalizeText_fixed:
  assumes "\<forall>c \<in> set s. plain c" and "spaced s"
    and "s = [] \<or> (\<not> isSpace (hd s) \<and> \<not> isSpace (last s))"
  shows "normalizeText s = s"
  using assms
  by (simp add: normalizeText_def toLowerCase_plain removePunctuation_plain
      normalizeSpaces_spaced trim_fixed)

text \<open>
  C9. Text normalisation is idempotent: normalising an already normalised string gives the
  same string, for every input string.
\<close>

theorem normalizeText_idempotent: "normalizeText (normalizeText x) = normalizeText x"
  by (rule normalizeText_fixed)
    (use normalizeText_plain normalizeText_spaced normalizeText_ends in blast)+

text \<open>An instance with punctuation, capitals and runs of white space.\<close>

theorem normalizeText_idempotent_witness:
  "normalizeText (normalizeText (str ''  Asha,   VERMA! '')) = str ''asha verma''"
proof -
  have "normalizeText (str ''  Asha,   VERMA! '') = str ''asha verma''"
    by (simp add: text_defs)
  with normalizeText_idempotent [of "str ''  Asha,   VERMA! ''"] show ?thesis
    by simp
qed


section \<open>The ID matcher\<close>

lemma aadhaarMatches_Some:
  "aadhaarMatches cmp d xs = Some r \<Longrightarrow> found r \<and> 9 / 10 \<le> confidence r"
  by (induction xs) (auto simp: Let_def split: if_splits)

lemma aadhaarLoop_cases:
  "(found (aadhaarLoop cmp d t ps) \<and> 9 / 10 \<le> confidence (aadhaarLoop cmp d t ps)) \<or>
   (\<not> found (aadhaarLoop cmp d t ps) \<and> confidence (aadhaarLoop cmp d t ps) = 0)"
  by (induction ps) (auto simp: notFound_def split: option.splits dest: aadhaarMatches_Some)

text \<open>
  C8. For every result of the ID matcher, with any comparer: a confidence of at least 0.9
  comes with \<^verbatim>\<open>found = true\<close>, a confidence below 0.9 comes with \<^verbatim>\<open>found = false\<close>,
  \<^verbatim>\<open>found = true\<close> never comes with a confidence below 0.9, and \<^verbatim>\<open>found = false\<close> carries
  the confidence 0.
\<close>

theorem findAadhaarInText_threshold:
  "(9 / 10 \<le> confidence (findAadhaarInText cmp a t) \<longrightarrow> found (findAadhaarInText cmp a t)) \<and>
   (confidence (findAadhaarInText cmp a t) < 9 / 10 \<longrightarrow> \<not> found (findAadhaarInText cmp a t)) \<and>
   (found (findAadhaarInText cmp a t) \<longrightarrow> 9 / 10 \<le> confidence (findAadhaarInText cmp a t)) \<and>
   (\<not> found (findAadhaarInText cmp a t) \<longrightarrow> confidence (findAadhaarInText cmp a t) = 0)"
  using aadhaarLoop_cases [of cmp "extractDigits a" t aadhaarPatterns]
  by (auto simp: findAadhaarInText_def)


lemma matchAt_first:
  "matchAt r p s = map_option (\<lambda>(p', s', g). (take (length s - length s') s, g, (p', s', g))) (first r (p, s, Map.empty))"
  by (auto simp: matchAt_def first_def split: list.splits)

lemma first_Seq:
  "first a st = Some x \<Longrightarrow> first b x = Some y \<Longrightarrow> first (Seq a b) st = Some y"
  by (auto simp: first_def split: list.splits)

lemma first_Seq_None: "first a st = None \<Longrightarrow> first (Seq a b) st = None"
  by (auto simp: first_def split: list.splits)

lemma first_WordB:
  "first WordB (p, s, g) = (if wordBefore p \<noteq> wordAfter s then Some (p, s, g) else None)"
  by (simp add: first_def)

lemma first_Seq_WordB: "first b (p, s, g) = None \<Longrightarrow> first (Seq WordB b) (p, s, g) = None"
  by (auto simp: first_def split: list.splits)

lemma rep_none: "0 < lo \<Longrightarrow> s = [] \<or> \<not> P (hd s) \<Longrightarrow> rep lo hi P p s = []"
  by (cases s) auto

lemma rep_zero: "rep 0 (Some 0) P p s = [(p, s)]"
  by (cases s) auto

lemma rep_exact:
  "\<forall>c \<in> set ds. P c \<Longrightarrow> rep (length ds) (Some (length ds)) P p (ds @ rest) = [(lastOr p ds, rest)]"
proof (induction ds arbitrary: p)
  case Nil
  then show ?case by (simp add: rep_zero lastOr_def)
next
  case (Cons d ds)
  then have "rep (length ds) (Some (length ds)) P (Some d) (ds @ rest) = [(lastOr (Some d) ds, rest)]"
    by simp
  with Cons.prems show ?case by (simp add: lastOr_def)
qed

lemma first_digits:
  assumes "length ds = n" and "\<forall>c \<in> set ds. isDigit c"
  shows "first (digits n n) (p, ds @ rest, g) = Some (lastOr p ds, rest, g)"
  using rep_exact [of ds isDigit p rest] assms
  by (simp add: first_def digits_def)

lemma first_digits_none:
  "0 < lo \<Longrightarrow> s = [] \<or> \<not> isDigit (hd s) \<Longrightarrow> first (digits lo hi) (p, s, g) = None"
  by (simp add: first_def digits_def rep_none)

lemma first_opt:
  assumes "length s1 \<le> 1" and "\<forall>c \<in> set s1. P c" and "rest = [] \<or> \<not> P (hd rest)"
  shows "first (opt P) (p, s1 @ rest, g) = Some (lastOr p s1, rest, g)"
proof (cases s1)
  case Nil
  with assms(3) show ?thesis
    by (cases rest) (auto simp: first_def opt_def lastOr_def)
next
  case (Cons w ws)
  with assms(1) have "ws = []" by simp
  with Cons assms(2) show ?thesis
    by (simp add: first_def opt_def lastOr_def rep_zero)
qed

lemma digit_word: "isDigit c \<Longrightarrow> isWord c"
  by (simp add: isDigit_def isWord_def)

lemma digit_not_space: "isDigit c \<Longrightarrow> \<not> isSpace c"
  by (auto simp: isDigit_def isSpace_def)

lemma matchAllFrom_skip:
  "noMatchIn r p pre rest \<Longrightarrow> matchAllFrom r p (pre @ rest) = matchAllFrom r (lastOr p pre) rest"
proof (induction pre arbitrary: p)
  case Nil
  then show ?case by (simp add: lastOr_def)
next
  case (Cons c cs)
  then show ?case by (simp add: lastOr_def)
qed

lemma matchAllFrom_hit:
  assumes "matchAt r p s = Some (m, g, (p', s', g'))" and "length s' < length s"
  shows "matchAllFrom r p s = (m, g) # matchAllFrom r p' s'"
  using assms by (cases s) auto

lemma aadhaarGrouped_no_digit:
  "s = [] \<or> \<not> isDigit (hd s) \<Longrightarrow> matchAt aadhaarGrouped p s = None"
  by (simp add: matchAt_first aadhaarGrouped_def first_Seq_WordB first_Seq_None first_digits_none)

lemma noMatchIn_aadhaarGrouped:
  "\<forall>c \<in> set pre. \<not> isDigit c \<Longrightarrow> noMatchIn aadhaarGrouped p pre rest"
  by (induction pre arbitrary: p) (simp_all add: aadhaarGrouped_no_digit)

lemma aadhaarGrouped_match:
  assumes d: "length d1 = 4" "length d2 = 4" "length d3 = 4" "\<forall>c \<in> set (d1 @ d2 @ d3). isDigit c"
    and s: "length s1 \<le> 1" "\<forall>c \<in> set s1. isSpace c" "length s2 \<le> 1" "\<forall>c \<in> set s2. isSpace c"
    and b: "\<not> wordBefore p" "\<not> wordAfter post"
  shows "first aadhaarGrouped (p, d1 @ s1 @ d2 @ s2 @ d3 @ post, g) = Some (Some (last d3), post, g)"
proof -
  from d have ne: "d1 \<noteq> []" "d2 \<noteq> []" "d3 \<noteq> []" by auto
  from d ne have hd: "isDigit (hd d1)" "isDigit (hd d2)" "isDigit (hd d3)" "isDigit (last d3)"
    by auto
  let ?p1 = "lastOr p d1" let ?p2 = "lastOr ?p1 s1" let ?p3 = "lastOr ?p2 d2"
  let ?p4 = "lastOr ?p3 s2"
  have 0: "first WordB (p, d1 @ s1 @ d2 @ s2 @ d3 @ post, g) = Some (p, d1 @ s1 @ d2 @ s2 @ d3 @ post, g)"
    using b(1) ne(1) hd(1) by (cases d1) (auto simp: first_WordB wordAfter_def digit_word)
  have 1: "first (digits 4 4) (p, d1 @ s1 @ d2 @ s2 @ d3 @ post, g) = Some (?p1, s1 @ d2 @ s2 @ d3 @ post, g)"
    using d by (intro first_digits) auto
  have 2: "first (opt isSpace) (?p1, s1 @ d2 @ s2 @ d3 @ post, g) = Some (?p2, d2 @ s2 @ d3 @ post, g)"
    using s ne hd by (intro first_opt) (auto simp: digit_not_space)
  have 3: "first (digits 4 4) (?p2, d2 @ s2 @ d3 @ post, g) = Some (?p3, s2 @ d3 @ post, g)"
    using d by (intro first_digits) auto
  have 4: "first (opt isSpace) (?p3, s2 @ d3 @ post, g) = Some (?p4, d3 @ post, g)"
    using s ne hd by (intro first_opt) (auto simp: digit_not_space)
  have 5: "first (digits 4 4) (?p4, d3 @ post, g) = Some (Some (last d3), post, g)"
    using first_digits [of d3 4 ?p4 post g] d ne by (auto simp: lastOr_def)
  have 6: "first WordB (Some (last d3), post, g) = Some (Some (last d3), post, g)"
    using b(2) hd(4) by (simp add: first_WordB wordBefore_def digit_word)
  show ?thesis
    unfolding aadhaarGrouped_def seqs.simps
    by (intro first_Seq [OF 0] first_Seq [OF 1] first_Seq [OF 2] first_Seq [OF 3]
        first_Seq [OF 4] first_Seq [OF 5] 6)
qed


lemma extractDigits_digits: "c \<in> set (extractDigits s) \<Longrightarrow> isDigit c"
  by (simp add: extractDigits_def)

lemma extractDigits_append: "extractDigits (a @ b) = extractDigits a @ extractDigits b"
  by (simp add: extractDigits_def)

lemma extractDigits_all: "\<forall>c \<in> set s. isDigit c \<Longrightarrow> extractDigits s = s"
  by (simp add: extractDigits_def)

lemma extractDigits_none: "\<forall>c \<in> set s. \<not> isDigit c \<Longrightarrow> extractDigits s = []"
  by (simp add: extractDigits_def)

lemma aadhaarLoop_first:
  assumes "matchG pattern documentText = m # rest" and "extractDigits m = inputDigits"
  shows "aadhaarLoop cmp inputDigits documentText (pattern # patterns) =
    \<lparr>confidence = 1, found = True, extracted = Some m\<rparr>"
  using assms by simp

text \<open>
  C1, as amended. Let the declared ID number have the twelve digits \<open>d1 d2 d3\<close>, and let the
  text be \<open>pre @ m @ post\<close>, where \<open>m\<close> is these digits with at most one white-space
  character after the fourth and after the eighth digit. If \<open>m\<close> is delimited by word
  boundaries (no letter, digit or underscore directly before or after it) and the grouped
  pattern matches at no position before \<open>m\<close>, the ID matcher returns \<^verbatim>\<open>found = true\<close>,
  confidence 1.0 and \<open>m\<close> as the extracted text, with any comparer.
\<close>

theorem findAadhaarInText_exact:
  assumes input: "extractDigits aadhaarInput = d1 @ d2 @ d3"
    and len: "length d1 = 4" "length d2 = 4" "length d3 = 4"
    and sep: "length s1 \<le> 1" "\<forall>c \<in> set s1. isSpace c" "length s2 \<le> 1" "\<forall>c \<in> set s2. isSpace c"
    and m: "m = d1 @ s1 @ d2 @ s2 @ d3"
    and earlier: "noMatchIn aadhaarGrouped None pre (m @ post)"
    and left: "pre = [] \<or> \<not> isWord (last pre)"
    and right: "post = [] \<or> \<not> isWord (hd post)"
  shows "findAadhaarInText cmp aadhaarInput (pre @ m @ post) =
    \<lparr>confidence = 1, found = True, extracted = Some m\<rparr>"
proof -
  have dig: "\<forall>c \<in> set (d1 @ d2 @ d3). isDigit c"
    using extractDigits_digits [of _ aadhaarInput] input by simp
  let ?p = "lastOr None pre"
  from left have wb: "\<not> wordBefore ?p"
    by (auto simp: wordBefore_def lastOr_def)
  from right have wa: "\<not> wordAfter post"
    by (cases post) (auto simp: wordAfter_def)
  have "first aadhaarGrouped (?p, d1 @ s1 @ d2 @ s2 @ d3 @ post, Map.empty)
      = Some (Some (last d3), post, Map.empty)"
    using len dig sep wb wa by (rule aadhaarGrouped_match)
  then have at: "matchAt aadhaarGrouped ?p (m @ post) = Some (m, Map.empty, (Some (last d3), post, Map.empty))"
    by (simp add: matchAt_first m)
  from len m have "length post < length (m @ post)" by simp
  with at have "matchAllFrom aadhaarGrouped ?p (m @ post)
      = (m, Map.empty) # matchAllFrom aadhaarGrouped (Some (last d3)) post"
    by (rule matchAllFrom_hit)
  with matchAllFrom_skip [OF earlier]
  have g: "matchG aadhaarGrouped (pre @ m @ post)
      = m # map fst (matchAllFrom aadhaarGrouped (Some (last d3)) post)"
    by (simp add: matchG_def matchAll_def)
  from sep have "extractDigits s1 = []" "extractDigits s2 = []"
    by (auto intro!: extractDigits_none dest: digit_not_space)
  moreover from dig have "extractDigits d1 = d1" "extractDigits d2 = d2" "extractDigits d3 = d3"
    by (auto intro!: extractDigits_all)
  ultimately have "extractDigits m = extractDigits aadhaarInput"
    by (simp add: m input extractDigits_append)
  with g show ?thesis
    unfolding findAadhaarInText_def aadhaarPatterns_def by (rule aadhaarLoop_first)
qed

text \<open>
  The scenario of the specification, inside a longer text with an earlier number.
\<close>

theorem findAadhaarInText_exact_witness:
  "findAadhaarInText compareTwoStrings (str ''123456789012'') (str ''DOB 1990, No 1234 5678 9012.'') =
     \<lparr>confidence = 1, found = True, extracted = Some (str ''1234 5678 9012'')\<rparr>"
proof -
  have input: "extractDigits (str ''123456789012'') = str ''1234'' @ str ''5678'' @ str ''9012''"
    by (simp add: text_defs)
  have earlier: "noMatchIn aadhaarGrouped None (str ''DOB 1990, No '')
      ((str ''1234'' @ [32] @ str ''5678'' @ [32] @ str ''9012'') @ str ''.'')"
    by (simp add: aadhaarGrouped_def rx_defs text_defs)
  have "findAadhaarInText compareTwoStrings (str ''123456789012'')
      (str ''DOB 1990, No '' @ (str ''1234'' @ [32] @ str ''5678'' @ [32] @ str ''9012'') @ str ''.'') =
     \<lparr>confidence = 1, found = True, extracted = Some (str ''1234'' @ [32] @ str ''5678'' @ [32] @ str ''9012'')\<rparr>"
    by (rule findAadhaarInText_exact [OF input _ _ _ _ _ _ _ refl earlier])
      (simp_all add: str_def isSpace_def isWord_def)
  then show ?thesis by (simp add: str_def)
qed

text \<open>
  C1 as stated fails: the text contains the declared digits verbatim, with their grouping
  spaces, directly after letters. There is no word boundary before the first digit, no
  pattern matches, and the matcher reports \<^verbatim>\<open>found = false\<close> with confidence 0.
\<close>

theorem findAadhaarInText_attached_counterexample:
  "includes' (str ''UID1234 5678 9012'') (str ''1234 5678 9012'') \<and>
   findAadhaarInText compareTwoStrings (str ''123456789012'') (str ''UID1234 5678 9012'') =
     \<lparr>confidence = 0, found = False, extracted = None\<rparr>"
  by (simp add: findAadhaarInText_def aadhaarPatterns_def aadhaarGrouped_def aadhaarPlain_def
      notFound_def rx_defs text_defs)

text \<open>
  The threshold property at a text with the declared number and at a text without a
  candidate.
\<close>

theorem findAadhaarInText_threshold_witness:
  "found (findAadhaarInText compareTwoStrings (str ''123456789012'') (str ''No 1234 5678 9012'')) \<and>
   9 / 10 \<le> confidence (findAadhaarInText compareTwoStrings (str ''123456789012'') (str ''No 1234 5678 9012'')) \<and>
   \<not> found (findAadhaarInText compareTwoStrings (str ''123456789012'') (str ''1234567890123'')) \<and>
   confidence (findAadhaarInText compareTwoStrings (str ''123456789012'') (str ''1234567890123'')) = 0"
proof -
  have a: "found (findAadhaarInText compareTwoStrings (str ''123456789012'') (str ''No 1234 5678 9012''))"
    by (simp add: findAadhaarInText_def aadhaarPatterns_def aadhaarGrouped_def aadhaarPlain_def
      notFound_def rx_defs text_defs)
  have b: "\<not> found (findAadhaarInText compareTwoStrings (str ''123456789012'') (str ''1234567890123''))"
    by (simp add: findAadhaarInText_def aadhaarPatterns_def aadhaarGrouped_def aadhaarPlain_def
      notFound_def rx_defs text_defs)
  from a b
    findAadhaarInText_threshold [of compareTwoStrings "str ''123456789012''" "str ''No 1234 5678 9012''"]
    findAadhaarInText_threshold [of compareTwoStrings "str ''123456789012''" "str ''1234567890123''"]
  show ?thesis by blast
qed


section \<open>The document classifier\<close>

lemma includes'_Nil: "includes' t []"
  by (cases t) simp_all

lemma normalizeText_Nil: "normalizeText [] = []"
  by (simp add: text_defs)

lemma normalizeText_devanagari:
  "normalizeText [2349, 2366, 2352, 2340, 32, 2360, 2352, 2325, 2366, 2352] = []"
  "normalizeText [2310, 2343, 2366, 2352] = []"
  by (simp_all add: text_defs)

lemma normalizeText_keywords:
  "normalizeText (str ''aadhaar'') = str ''aadhaar''"
  "normalizeText (str ''aadhar'') = str ''aadhar''"
  "normalizeText (str ''uidai'') = str ''uidai''"
  "normalizeText (str ''unique identification'') = str ''unique identification''"
  "normalizeText (str ''government of india'') = str ''government of india''"
  by (simp_all add: text_defs)

lemma filter_last_two: "P f \<Longrightarrow> P g \<Longrightarrow> 2 \<le> length (filter P [a, b, c, d, e, f, g])"
  by simp

lemma keywordMatches_ge: "2 \<le> keywordMatches t"
  unfolding keywordMatches_def aadhaarKeywords_def
  by (rule filter_last_two) (simp_all only: normalizeText_devanagari includes'_Nil)


lemma isAadhaarDocument_bounds:
  "0 \<le> confidence (isAadhaarDocument documentText) \<and> confidence (isAadhaarDocument documentText) \<le> 1"
  by (simp add: isAadhaarDocument_def Let_def)

text \<open>
  C10. For every input text, the empty one included, the classifier's confidence is at
  least 2/7: normalisation deletes every code unit of the two Devanagari keywords except
  the space, which trimming removes, so both normalise to the empty string, which every
  string includes. At least two of the seven keywords therefore always count as matched,
  and the confidence is never 0.
\<close>

theorem isAadhaarDocument_floor:
  "normalizeText [2349, 2366, 2352, 2340, 32, 2360, 2352, 2325, 2366, 2352] = [] \<and>
   normalizeText [2310, 2343, 2366, 2352] = [] \<and>
   2 \<le> keywordMatches (normalizeText documentText) \<and>
   2 / 7 \<le> confidence (isAadhaarDocument documentText) \<and>
   confidence (isAadhaarDocument documentText) \<noteq> 0"
proof -
  let ?k = "keywordMatches (normalizeText documentText)"
  have k: "2 \<le> ?k" by (rule keywordMatches_ge)
  then have "2 / 7 \<le> real ?k / 7" by simp
  then have "2 / 7 \<le> confidence (isAadhaarDocument documentText)"
    by (simp add: isAadhaarDocument_def Let_def aadhaarKeywords_def)
  with k show ?thesis
    by (simp add: normalizeText_devanagari)
qed

text \<open>
  The bound at a text without any keyword.
\<close>

theorem isAadhaarDocument_floor_witness:
  "2 / 7 \<le> confidence (isAadhaarDocument (str ''hello'')) \<and>
   2 \<le> keywordMatches (normalizeText (str ''hello''))"
  using isAadhaarDocument_floor [of "str ''hello''"] by simp

lemma test_aadhaarGrouped_Nil: "\<not> test aadhaarGrouped []"
  by (simp add: test_def exec_def matchAt_def aadhaarGrouped_def wordBefore_def wordAfter_def)

lemma keywordMatches_Nil: "keywordMatches [] = 2"
  unfolding keywordMatches_def aadhaarKeywords_def
  by (simp add: normalizeText_devanagari normalizeText_keywords) (simp add: str_def)

text \<open>
  C4. The claim expects confidence 0 and \<^verbatim>\<open>isAadhaar = false\<close> on the empty text. The
  classifier does report \<^verbatim>\<open>isAadhaar = false\<close>, and its confidence lies in \<open>[0,1]\<close>
  (\<open>isAadhaarDocument_bounds\<close>), but on the empty text the confidence is 2/7: the two
  Devanagari keywords are counted as matched.
\<close>

theorem isAadhaarDocument_empty:
  "isAadhaarDocument [] = \<lparr>confidence = 2 / 7, isAadhaar = False\<rparr>"
  by (simp add: isAadhaarDocument_def normalizeText_Nil keywordMatches_Nil test_aadhaarGrouped_Nil
      aadhaarKeywords_def)

text \<open>
  On the empty text the document is rejected with a confidence above 0.
\<close>

theorem isAadhaarDocument_empty_witness:
  "\<not> isAadhaar (isAadhaarDocument []) \<and> confidence (isAadhaarDocument []) > 0"
  using isAadhaarDocument_empty by simp


section \<open>Short circuit of the orchestrator\<close>

text \<open>
  C3. When the file is an image, recognition returns, and the classifier reports
  \<^verbatim>\<open>isAadhaar = false\<close> for the recognised text, \<^verbatim>\<open>validateDocumentData\<close> ends with the overall
  status \<^verbatim>\<open>invalid\<close> and the single entry \<^verbatim>\<open>documentType\<close>, and the only function of the
  matching library it has called is the classifier: none of the four field matchers runs.
\<close>

theorem validateDocumentData_not_aadhaar:
  assumes "startsWith fileType (str ''image/'')"
    and "rawText = (case recognizedText of None \<Rightarrow> [] | Some t \<Rightarrow> t)"
    and "\<not> isAadhaar (isAadhaarDocument rawText)"
  shows "validateDocumentData cmp data fileType (Ocr_result recognizedText) =
    \<lparr>documentValidation =
       \<lparr>overallStatus = St_invalid, extractedData = None,
        validationResults =
          [(''documentType'',
            \<lparr>confidence = confidence (isAadhaarDocument rawText), found = False,
             message = Msg_not_aadhaar, status = Sev_error\<rparr>)],
        ocrText = Some rawText\<rparr>,
     shown = Toast_invalid_document, calls = [Call_isAadhaarDocument]\<rparr>"
  using assms by (simp add: validateDocumentData_def Let_def)


lemma helloworld_normal: "normalizeText (str ''hello world'') = str ''hello world''"
  by (simp add: text_defs)

lemma helloworld_keywords: "keywordMatches (str ''hello world'') = 2"
  unfolding keywordMatches_def aadhaarKeywords_def
  by (simp add: normalizeText_devanagari normalizeText_keywords) (simp add: str_def)

lemma helloworld_number: "\<not> test aadhaarGrouped (str ''hello world'')"
  by (simp add: test_def exec_def matchAt_def aadhaarGrouped_def wordBefore_def wordAfter_def
      str_def digits_def isDigit_def isWord_def)

lemma helloworld_not_aadhaar: "\<not> isAadhaar (isAadhaarDocument (str ''hello world''))"
  by (simp add: isAadhaarDocument_def helloworld_normal helloworld_keywords helloworld_number
      aadhaarKeywords_def)

text \<open>
  A recognised text without keywords and without a grouped 12-digit number.
\<close>

theorem validateDocumentData_not_aadhaar_witness:
  "overallStatus (documentValidation (validateDocumentData compareTwoStrings
      \<lparr>name = str ''Asha Verma'', dateOfBirth = str ''1995-07-14'',
       idNumber = str ''123456789012'', emergencyContact = str ''9876543210''\<rparr>
      (str ''image/png'') (Ocr_result (Some (str ''hello world''))))) = St_invalid \<and>
   calls (validateDocumentData compareTwoStrings
      \<lparr>name = str ''Asha Verma'', dateOfBirth = str ''1995-07-14'',
       idNumber = str ''123456789012'', emergencyContact = str ''9876543210''\<rparr>
      (str ''image/png'') (Ocr_result (Some (str ''hello world'')))) = [Call_isAadhaarDocument] \<and>
   map fst (validationResults (documentValidation (validateDocumentData compareTwoStrings
      \<lparr>name = str ''Asha Verma'', dateOfBirth = str ''1995-07-14'',
       idNumber = str ''123456789012'', emergencyContact = str ''9876543210''\<rparr>
      (str ''image/png'') (Ocr_result (Some (str ''hello world'')))))) = [''documentType'']"
proof -
  have "startsWith (str ''image/png'') (str ''image/'')"
    by (simp add: str_def)
  from validateDocumentData_not_aadhaar [OF this _ helloworld_not_aadhaar, of "Some (str ''hello world'')"]
  show ?thesis by simp
qed

section \<open>Aggregation of the field results\<close>

lemma determineOverall_four:
  "determineOverall [(''name'', n), (''idNumber'', a), (''dateOfBirth'', d), (''phone'', p)] =
     (if status n = Sev_error \<or> status a = Sev_error then St_invalid
      else if status n = Sev_warning \<or> status a = Sev_warning \<or> status d = Sev_warning
              \<or> status p = Sev_warning then St_warning
      else St_valid)"
  by (simp add: determineOverall_def criticalFields_def)

text \<open>
  C2, as amended. For every four matcher results the overall status is \<^verbatim>\<open>invalid\<close> if the
  name or the ID number is not found; otherwise it is \<^verbatim>\<open>warning\<close> if the name is found with
  confidence below 0.8, the ID number with confidence below 0.9, the date of birth is not
  found or found with confidence below 0.7, or the phone number is not found; otherwise it
  is \<^verbatim>\<open>valid\<close>. A found phone number never causes a warning, whatever its confidence.
\<close>

theorem aggregate_overallStatus:
  "overallStatus (fst (aggregate nameResult aadhaarResult dobResult phoneResult rawText)) =
     (if \<not> found nameResult \<or> \<not> found aadhaarResult then St_invalid
      else if confidence nameResult < 8 / 10 \<or> confidence aadhaarResult < 9 / 10
              \<or> \<not> found dobResult \<or> confidence dobResult < 7 / 10
              \<or> \<not> found phoneResult then St_warning
      else St_valid)"
  by (auto simp: aggregate_def Let_def determineOverall_four nameValidation_def
      idNumberValidation_def dateOfBirthValidation_def phoneValidation_def)

text \<open>
  The three outcomes: advisory fields missing, a critical field missing, all fields found.
\<close>

theorem aggregate_overallStatus_witness:
  "overallStatus (fst (aggregate
      \<lparr>confidence = 1, found = True, extracted = Some (str ''Asha Verma'')\<rparr>
      \<lparr>confidence = 1, found = True, extracted = Some (str ''1234 5678 9012'')\<rparr>
      notFound notFound (str ''Asha Verma 1234 5678 9012''))) = St_warning \<and>
   overallStatus (fst (aggregate
      \<lparr>confidence = 1, found = True, extracted = Some (str ''Asha Verma'')\<rparr>
      notFound notFound notFound (str ''Asha Verma''))) = St_invalid \<and>
   overallStatus (fst (aggregate
      \<lparr>confidence = 1, found = True, extracted = Some (str ''Asha Verma'')\<rparr>
      \<lparr>confidence = 1, found = True, extracted = Some (str ''1234 5678 9012'')\<rparr>
      \<lparr>confidence = 1, found = True, extracted = Some (str ''14/07/1995'')\<rparr>
      \<lparr>confidence = 1, found = True, extracted = Some (str ''9876543210'')\<rparr>
      (str ''Asha Verma 1234 5678 9012 14/07/1995 9876543210''))) = St_valid"
  by (simp add: aggregate_overallStatus notFound_def)

text \<open>
  C2 as stated fails: a name found with confidence 0.8 and a phone number found with
  confidence 0.85 are partial matches below full confidence, and the overall status is
  \<^verbatim>\<open>valid\<close>, not \<^verbatim>\<open>warning\<close>.
\<close>

theorem aggregate_partial_counterexample:
  "found \<lparr>confidence = 8 / 10, found = True, extracted = Some (str ''asha bina chitra devi'')\<rparr> \<and>
   confidence \<lparr>confidence = 8 / 10, found = True, extracted = Some (str ''asha bina chitra devi'')\<rparr> < 1 \<and>
   found \<lparr>confidence = 85 / 100, found = True, extracted = Some (str ''9876543211'')\<rparr> \<and>
   confidence \<lparr>confidence = 85 / 100, found = True, extracted = Some (str ''9876543211'')\<rparr> < 1 \<and>
   overallStatus (fst (aggregate
      \<lparr>confidence = 8 / 10, found = True, extracted = Some (str ''asha bina chitra devi'')\<rparr>
      \<lparr>confidence = 1, found = True, extracted = Some (str ''1234 5678 9012'')\<rparr>
      \<lparr>confidence = 1, found = True, extracted = Some (str ''14/07/1995'')\<rparr>
      \<lparr>confidence = 85 / 100, found = True, extracted = Some (str ''9876543211'')\<rparr>
      (str ''Aadhaar''))) = St_valid"
  by (simp add: aggregate_def Let_def determineOverall_four nameValidation_def
      idNumberValidation_def dateOfBirthValidation_def phoneValidation_def)


section \<open>The name matcher\<close>

lemma startsWith_append: "startsWith (x @ v) x"
  by (induction x) simp_all

lemma includes'_append: "includes' (u @ x @ v) x"
proof (induction u)
  case Nil
  show ?case
  proof (cases "x @ v")
    case Nil
    then show ?thesis by simp
  next
    case (Cons c cs)
    with startsWith_append [of x v] show ?thesis by simp
  qed
next
  case (Cons c u)
  then show ?case by simp
qed

lemma toLowerCase_append: "toLowerCase (a @ b) = toLowerCase a @ toLowerCase b"
  by (simp add: toLowerCase_def)

lemma removePunctuation_append:
  "removePunctuation (a @ b) = removePunctuation a @ removePunctuation b"
  by (simp add: removePunctuation_def)

lemma normalizeSpaces_append_left:
  "b = [] \<or> \<not> isSpace (hd b) \<Longrightarrow> normalizeSpaces (a @ b) = normalizeSpaces a @ normalizeSpaces b"
proof (induction a rule: normalizeSpaces.induct)
  case 1
  then show ?case by simp
next
  case (2 c cs)
  show ?case
  proof (cases "isSpace c")
    case False
    with 2 show ?thesis by simp
  next
    case True
    show ?thesis
    proof (cases "\<forall>x \<in> set cs. isSpace x")
      case all: True
      from "2.prems" have "dropWhile isSpace b = b" by (cases b) auto
      with all have "dropWhile isSpace (cs @ b) = b" by simp
      moreover from all have "normalizeSpaces (dropWhile isSpace cs) = []"
        by (metis dropWhile_eq_Nil_conv normalizeSpaces.simps(1))
      ultimately show ?thesis using True by simp
    next
      case False
      then have "dropWhile isSpace (cs @ b) = dropWhile isSpace cs @ b"
        by (auto simp: dropWhile_append1)
      with True 2 show ?thesis by simp
    qed
  qed
qed

lemma normalizeSpaces_append_right:
  "a = [] \<or> \<not> isSpace (last a) \<Longrightarrow> normalizeSpaces (a @ b) = normalizeSpaces a @ normalizeSpaces b"
proof (induction a rule: normalizeSpaces.induct)
  case 1
  then show ?case by simp
next
  case (2 c cs)
  show ?case
  proof (cases "isSpace c")
    case False
    with 2 have "cs = [] \<or> \<not> isSpace (last cs)" by (auto split: if_splits)
    with False 2 show ?thesis by simp
  next
    case True
    with "2.prems" have ne: "cs \<noteq> []" and l: "\<not> isSpace (last cs)" by (auto split: if_splits)
    then have ex: "\<exists>x \<in> set cs. \<not> isSpace x" using last_in_set by blast
    then have d: "dropWhile isSpace (cs @ b) = dropWhile isSpace cs @ b"
      by (auto simp: dropWhile_append1)
    from ex have dne: "dropWhile isSpace cs \<noteq> []" by simp
    then have "last (dropWhile isSpace cs) = last cs"
      by (metis append_Nil2 last_appendR takeWhile_dropWhile_id)
    with l True "2.IH"(1) have "normalizeSpaces (dropWhile isSpace cs @ b)
        = normalizeSpaces (dropWhile isSpace cs) @ normalizeSpaces b"
      by simp
    with True d show ?thesis by simp
  qed
qed

lemma dropWhile_keeps:
  "x \<noteq> [] \<Longrightarrow> \<not> P (hd x) \<Longrightarrow> \<exists>u'. dropWhile P (u @ x @ v) = u' @ x @ v"
proof (induction u)
  case Nil
  then have "dropWhile P (x @ v) = x @ v" by (cases x) auto
  then show ?case by (metis append_Nil)
next
  case (Cons c u)
  show ?case
  proof (cases "P c")
    case True
    with Cons show ?thesis by simp
  next
    case False
    then have "dropWhile P ((c # u) @ x @ v) = (c # u) @ x @ v" by simp
    then show ?thesis by blast
  qed
qed

lemma trim_keeps:
  assumes "x \<noteq> []" and "\<not> isSpace (hd x)" and "\<not> isSpace (last x)"
  shows "\<exists>u' v'. trim (u @ x @ v) = u' @ x @ v'"
proof -
  from dropWhile_keeps [of x isSpace u v, OF assms(1,2)] obtain u' where
    1: "dropWhile isSpace (u @ x @ v) = u' @ x @ v" by blast
  from assms have "rev x \<noteq> []" and "\<not> isSpace (hd (rev x))" by (simp_all add: hd_rev)
  from dropWhile_keeps [of "rev x" isSpace "rev v" "rev u'", OF this] obtain w where
    "dropWhile isSpace (rev v @ rev x @ rev u') = w @ rev x @ rev u'" by blast
  with 1 have "trim (u @ x @ v) = u' @ x @ rev w" by (simp add: trim_def)
  then show ?thesis by blast
qed

lemma normalizeText_keeps:
  assumes x: "x \<noteq> []" "\<not> isSpace (hd x)" "\<not> isSpace (last x)"
    and low: "removePunctuation (toLowerCase raw) = x" and sp: "normalizeSpaces x = x"
  shows "includes' (normalizeText (pre @ raw @ post)) x"
proof -
  let ?a = "removePunctuation (toLowerCase pre)" and ?b = "removePunctuation (toLowerCase post)"
  have "normalizeSpaces (?a @ x @ ?b) = normalizeSpaces ?a @ normalizeSpaces (x @ ?b)"
    using x by (intro normalizeSpaces_append_left) (cases x, auto)
  also have "normalizeSpaces (x @ ?b) = x @ normalizeSpaces ?b"
    using x sp normalizeSpaces_append_right [of x ?b] by simp
  finally have "normalizeText (pre @ raw @ post) = trim (normalizeSpaces ?a @ x @ normalizeSpaces ?b)"
    by (simp add: normalizeText_def toLowerCase_append removePunctuation_append low)
  with trim_keeps [OF x] obtain u' v' where "normalizeText (pre @ raw @ post) = u' @ x @ v'"
    by metis
  then show ?thesis by (simp add: includes'_append)
qed

text \<open>
  C5, as amended. For every declared name that has, after normalisation, at least one part
  longer than one character, and every text whose normalised form includes the normalised
  name as a contiguous substring, the name matcher returns \<^verbatim>\<open>found = true\<close> with
  confidence 1.0 and the declared name as the extracted text, with any comparer and
  threshold.
\<close>

theorem findNameInText_contained:
  assumes "filter (\<lambda>part. length part > 1) (splitBy 32 (normalizeText nameInput)) \<noteq> []"
    and "includes' (normalizeText documentText) (normalizeText nameInput)"
  shows "findNameInText cmp nameInput documentText threshold =
    \<lparr>confidence = 1, found = True, extracted = Some nameInput\<rparr>"
  using assms by (simp add: findNameInText_def Let_def)

lemma asha_normal: "normalizeText (str ''Asha Verma'') = str ''asha verma''"
  by (simp add: text_defs)

lemma asha_parts:
  "filter (\<lambda>part. length part > 1) (splitBy 32 (str ''asha verma'')) = [str ''asha'', str ''verma'']"
  by (simp add: str_def)

lemma asha_included: "includes' (normalizeText (pre @ str ''ASHA VERMA'' @ post)) (str ''asha verma'')"
  by (rule normalizeText_keeps) (simp_all add: text_defs)

text \<open>
  The scenario of the specification: the declared name \<^verbatim>\<open>Asha Verma\<close> against any text that
  contains \<^verbatim>\<open>ASHA VERMA\<close> verbatim.
\<close>

theorem findNameInText_contained_witness:
  "\<forall>cmp threshold pre post.
     findNameInText cmp (str ''Asha Verma'') (pre @ str ''ASHA VERMA'' @ post) threshold =
       \<lparr>confidence = 1, found = True, extracted = Some (str ''Asha Verma'')\<rparr>"
proof (intro allI)
  fix cmp threshold pre post
  have parts: "filter (\<lambda>part. length part > 1) (splitBy 32 (normalizeText (str ''Asha Verma''))) \<noteq> []"
    by (simp add: asha_normal) (simp add: str_def)
  have inc: "includes' (normalizeText (pre @ str ''ASHA VERMA'' @ post)) (normalizeText (str ''Asha Verma''))"
    by (simp only: asha_normal asha_included)
  show "findNameInText cmp (str ''Asha Verma'') (pre @ str ''ASHA VERMA'' @ post) threshold =
       \<lparr>confidence = 1, found = True, extracted = Some (str ''Asha Verma'')\<rparr>"
    using parts inc by (rule findNameInText_contained)
qed

text \<open>
  C5 as stated fails: every part of the declared name \<^verbatim>\<open>A B\<close> has one character, so
  \<^verbatim>\<open>nameParts\<close> is empty and the matcher returns \<^verbatim>\<open>found = false\<close> with confidence 0 before
  it looks at the text, although the normalised text includes the normalised name.
\<close>

theorem findNameInText_initials_counterexample:
  "includes' (normalizeText (str ''Name: A B'')) (normalizeText (str ''A B'')) \<and>
   findNameInText compareTwoStrings (str ''A B'') (str ''Name: A B'') (7 / 10) =
     \<lparr>confidence = 0, found = False, extracted = None\<rparr>"
proof -
  have 1: "normalizeText (str ''A B'') = [97, 32, 98]"
    by (simp add: text_defs)
  have 2: "normalizeText (str ''Name: A B'') = [110, 97, 109, 101, 32, 97, 32, 98]"
    by (simp add: text_defs)
  have 3: "filter (\<lambda>part. length part > 1) (splitBy 32 [97, 32, 98]) = []"
    by simp
  have 4: "includes' [110, 97, 109, 101, 32, 97, 32, 98] [97, 32, 98]"
    by simp
  show ?thesis
    unfolding findNameInText_def Let_def 1 2 3 using 4 by simp
qed


section \<open>The phone matcher\<close>

lemma rep_none_all: "0 < lo \<Longrightarrow> \<forall>c \<in> set s. \<not> P c \<Longrightarrow> rep lo hi P p s = []"
  by (cases s) auto

lemma phoneMobile_no_digit: "s = [] \<or> \<not> isDigit (hd s) \<Longrightarrow> matchAt phoneMobile p s = None"
  by (cases s) (auto simp: matchAt_def phoneMobile_def isDigit_def)

lemma phoneTen_no_digit: "s = [] \<or> \<not> isDigit (hd s) \<Longrightarrow> matchAt phoneTen p s = None"
  by (simp add: matchAt_first phoneTen_def first_Seq_WordB first_Seq_None first_digits_none)

lemma phoneFormatted_no_digit: "s = [] \<or> \<not> isDigit (hd s) \<Longrightarrow> matchAt phoneFormatted p s = None"
  by (simp add: matchAt_first phoneFormatted_def first_Seq_WordB first_Seq_None first_digits_none)

lemma noMatchIn_no_digit:
  assumes "\<And>p s. s = [] \<or> \<not> isDigit (hd s) \<Longrightarrow> matchAt r p s = None"
    and "\<forall>c \<in> set pre. \<not> isDigit c"
  shows "noMatchIn r p pre rest"
  using assms(2) by (induction pre arbitrary: p) (simp_all add: assms(1))

lemma matchAllFrom_no_digit:
  assumes "\<And>p s. s = [] \<or> \<not> isDigit (hd s) \<Longrightarrow> matchAt r p s = None"
    and "\<forall>c \<in> set s. \<not> isDigit c"
  shows "matchAllFrom r p s = []"
  using assms(2) by (induction s arbitrary: p) (simp_all add: assms(1))

lemma phoneMobile_none:
  assumes post: "\<forall>c \<in> set post. \<not> isDigit c" and p: "\<not> wordBefore p"
  shows "matchAllFrom phoneMobile p (str ''987-654-3210'' @ post) = []"
proof -
  have tail: "\<And>q. matchAllFrom phoneMobile q post = []"
    using post by (intro matchAllFrom_no_digit phoneMobile_no_digit)
  show ?thesis
    using p tail
    by (simp add: str_def matchAt_def phoneMobile_def digits_def wordBefore_def wordAfter_def
        isWord_def isDigit_def)
qed

lemma phoneTen_none:
  assumes post: "\<forall>c \<in> set post. \<not> isDigit c" and p: "\<not> wordBefore p"
  shows "matchAllFrom phoneTen p (str ''987-654-3210'' @ post) = []"
proof -
  have tail: "\<And>q. matchAllFrom phoneTen q post = []"
    using post by (intro matchAllFrom_no_digit phoneTen_no_digit)
  have run: "\<And>n q. rep (Suc n) (Some (Suc n)) isDigit q post = []"
    using post by (intro rep_none_all) simp_all
  show ?thesis
    using p tail run [of 5] 
    by (simp add: str_def matchAt_def phoneTen_def digits_def wordBefore_def wordAfter_def
        isWord_def isDigit_def eval_nat_numeral)
qed

lemma phoneFormatted_hit:
  assumes post: "\<not> wordAfter post" and p: "\<not> wordBefore p"
  shows "matchAt phoneFormatted p (str ''987-654-3210'' @ post) =
    Some (str ''987-654-3210'', Map.empty, (Some 48, post, Map.empty))"
  using p post
  by (simp add: str_def matchAt_def phoneFormatted_def digits_def opt_def spaceOrDash_def
      wordBefore_def wordAfter_def isWord_def isDigit_def isSpace_def rep_zero)


lemma phoneLoop_third:
  assumes "matchG p1 documentText = []" and "matchG p2 documentText = []"
    and "matchG p3 documentText = m # rest" and "sliceLast 10 (extractDigits m) = last10Digits"
  shows "phoneLoop cmp last10Digits documentText (p1 # p2 # p3 # patterns) =
    \<lparr>confidence = 1, found = True, extracted = Some m\<rparr>"
  using assms by simp

text \<open>A text in which the grouped number stands alone, without any other digit, has no
  candidate of the first two patterns and no earlier candidate of the third.\<close>

lemma standalone_phone_text:
  assumes pre: "\<forall>c \<in> set pre. \<not> isDigit c" and post: "\<forall>c \<in> set post. \<not> isDigit c"
    and left: "pre = [] \<or> \<not> isWord (last pre)"
  shows "matchG phoneMobile (pre @ str ''987-654-3210'' @ post) = []"
    and "matchG phoneTen (pre @ str ''987-654-3210'' @ post) = []"
    and "noMatchIn phoneFormatted None pre (str ''987-654-3210'' @ post)"
proof -
  let ?m = "str ''987-654-3210''" and ?p = "lastOr None pre"
  from left have wb: "\<not> wordBefore ?p"
    by (auto simp: wordBefore_def lastOr_def)
  have skip: "matchAllFrom r None (pre @ ?m @ post) = matchAllFrom r ?p (?m @ post)"
    if "\<And>p s. s = [] \<or> \<not> isDigit (hd s) \<Longrightarrow> matchAt r p s = None" for r
    using that pre by (intro matchAllFrom_skip noMatchIn_no_digit)
  show "matchG phoneMobile (pre @ ?m @ post) = []"
    by (simp add: matchG_def matchAll_def skip [OF phoneMobile_no_digit] phoneMobile_none [OF post wb])
  show "matchG phoneTen (pre @ ?m @ post) = []"
    by (simp add: matchG_def matchAll_def skip [OF phoneTen_no_digit] phoneTen_none [OF post wb])
  show "noMatchIn phoneFormatted None pre (?m @ post)"
    using pre by (intro noMatchIn_no_digit phoneFormatted_no_digit)
qed

text \<open>
  The number \<^verbatim>\<open>987-654-3210\<close> as the first candidate of a text: delimited by word boundaries,
  without a stand-alone run of ten digits in the text and without an earlier match of the
  third pattern.
\<close>

lemma findPhoneInText_grouped:
  assumes input: "sliceLast 10 (extractDigits phoneInput) = str ''9876543210''"
    and m: "m = str ''987-654-3210''"
    and mobile: "matchG phoneMobile (pre @ m @ post) = []"
    and ten: "matchG phoneTen (pre @ m @ post) = []"
    and earlier: "noMatchIn phoneFormatted None pre (m @ post)"
    and left: "pre = [] \<or> \<not> isWord (last pre)"
    and right: "post = [] \<or> \<not> isWord (hd post)"
  shows "findPhoneInText cmp phoneInput (pre @ m @ post) =
    \<lparr>confidence = 1, found = True, extracted = Some m\<rparr>"
proof -
  let ?p = "lastOr None pre"
  from left have wb: "\<not> wordBefore ?p"
    by (auto simp: wordBefore_def lastOr_def)
  from right have wa: "\<not> wordAfter post"
    by (cases post) (auto simp: wordAfter_def)
  have "length post < length (m @ post)"
    by (simp add: m str_def)
  with phoneFormatted_hit [OF wa wb]
  have "matchAllFrom phoneFormatted ?p (m @ post) =
      (m, Map.empty) # matchAllFrom phoneFormatted (Some 48) post"
    unfolding m by (rule matchAllFrom_hit)
  with matchAllFrom_skip [OF earlier]
  have formatted: "matchG phoneFormatted (pre @ m @ post) =
      m # map fst (matchAllFrom phoneFormatted (Some 48) post)"
    by (simp add: matchG_def matchAll_def)
  have "sliceLast 10 (extractDigits m) = str ''9876543210''"
    by (simp add: m sliceLast_def text_defs)
  with mobile ten formatted show ?thesis
    unfolding findPhoneInText_def Let_def phonePatterns_def input
    by (rule phoneLoop_third)
qed

lemma phoneMatches_append:
  "phoneMatches cmp l (xs @ ys) =
     (case phoneMatches cmp l xs of Some r \<Rightarrow> Some r | None \<Rightarrow> phoneMatches cmp l ys)"
  by (induction xs) (simp_all add: Let_def)

lemma phoneLoop_candidates:
  "phoneLoop cmp l documentText patterns =
     (case phoneMatches cmp l (concat (map (\<lambda>pattern. matchG pattern documentText) patterns)) of
        Some r \<Rightarrow> r
      | None \<Rightarrow> notFound)"
  by (induction patterns) (simp_all add: phoneMatches_append split: option.splits)

lemma phoneMatches_rejected:
  assumes "\<forall>c \<in> set before. sliceLast 10 (extractDigits c) \<noteq> l \<and>
      getSimilarity cmp l (sliceLast 10 (extractDigits c)) < 8 / 10"
  shows "phoneMatches cmp l (before @ rest) = phoneMatches cmp l rest"
  using assms by (induction before) (simp_all add: Let_def)

text \<open>
  C6, as amended. The candidates of the phone matcher are the matches of its four patterns,
  in the order of the patterns and, for one pattern, from left to right. For every declared
  phone number and every text: if a candidate whose last ten digits are the last ten digits
  of the declared number is preceded only by candidates that fail both tests (their last
  ten digits differ, and the similarity is below 0.8), the matcher returns
  \<^verbatim>\<open>found = true\<close> with confidence 1.0 and that candidate as the extracted text. This is the
  rule that exact equality of the two last-10-digit windows yields confidence 1.0, with any
  comparer.
\<close>

theorem findPhoneInText_exact:
  assumes input: "sliceLast 10 (extractDigits phoneInput) = last10Digits"
    and candidates: "phoneCandidates documentText = before @ m # after"
    and rejected: "\<forall>c \<in> set before. sliceLast 10 (extractDigits c) \<noteq> last10Digits \<and>
      getSimilarity cmp last10Digits (sliceLast 10 (extractDigits c)) < 8 / 10"
    and exact: "sliceLast 10 (extractDigits m) = last10Digits"
  shows "findPhoneInText cmp phoneInput documentText =
    \<lparr>confidence = 1, found = True, extracted = Some m\<rparr>"
proof -
  have "phoneMatches cmp last10Digits (before @ m # after) = phoneMatches cmp last10Digits (m # after)"
    using rejected by (rule phoneMatches_rejected)
  also have "\<dots> = Some \<lparr>confidence = 1, found = True, extracted = Some m\<rparr>"
    using exact by simp
  finally show ?thesis
    using candidates
    by (simp add: findPhoneInText_def Let_def input phoneLoop_candidates phoneCandidates_def)
qed

lemma office_candidates:
  "phoneCandidates (str ''Office 555-000-1111, Mobile 987-654-3210'') =
     [str ''555-000-1111'', str ''987-654-3210'']"
  by (simp add: phoneCandidates_def phonePatterns_def phoneMobile_def phoneTen_def
      phoneFormatted_def phoneCountry_def spaceOrDash_def rx_defs text_defs)

text \<open>
  A declared number with a country code, \<^verbatim>\<open>+91 98765 43210\<close>, against a text in which the
  number is written \<^verbatim>\<open>987-654-3210\<close> after another grouped number that fails both tests.
\<close>

theorem findPhoneInText_exact_witness:
  "findPhoneInText compareTwoStrings (str ''+91 98765 43210'')
      (str ''Office 555-000-1111, Mobile 987-654-3210'') =
    \<lparr>confidence = 1, found = True, extracted = Some (str ''987-654-3210'')\<rparr>"
proof -
  have input: "sliceLast 10 (extractDigits (str ''+91 98765 43210'')) = str ''9876543210''"
    by (simp add: sliceLast_def text_defs)
  have candidates: "phoneCandidates (str ''Office 555-000-1111, Mobile 987-654-3210'') =
      [str ''555-000-1111''] @ str ''987-654-3210'' # []"
    by (simp add: office_candidates)
  have office: "sliceLast 10 (extractDigits (str ''555-000-1111'')) = str ''5550001111''"
    by (simp add: sliceLast_def text_defs)
  have "normalizeText (str ''9876543210'') = str ''9876543210''"
    "normalizeText (str ''5550001111'') = str ''5550001111''"
    by (simp_all add: text_defs)
  then have "getSimilarity compareTwoStrings (str ''9876543210'') (str ''5550001111'') < 8 / 10"
    by (simp add: getSimilarity_def) (simp add: compareTwoStrings_def str_def)
  with office have rejected: "\<forall>c \<in> set [str ''555-000-1111''].
      sliceLast 10 (extractDigits c) \<noteq> str ''9876543210'' \<and>
      getSimilarity compareTwoStrings (str ''9876543210'') (sliceLast 10 (extractDigits c)) < 8 / 10"
    by (simp add: str_def)
  have exact: "sliceLast 10 (extractDigits (str ''987-654-3210'')) = str ''9876543210''"
    by (simp add: sliceLast_def text_defs)
  show ?thesis
    using input candidates rejected exact by (rule findPhoneInText_exact)
qed

text \<open>
  C6 as stated fails: no pattern covers the grouping 5-5. The text \<^verbatim>\<open>98765-43210\<close> has no
  candidate, and on it the matcher returns \<^verbatim>\<open>found = false\<close> with confidence 0.
\<close>

theorem findPhoneInText_five_five_counterexample:
  "includes' (str ''98765-43210'') (str ''98765-43210'') \<and>
   phoneCandidates (str ''98765-43210'') = [] \<and>
   findPhoneInText compareTwoStrings (str ''9876543210'') (str ''98765-43210'') =
     \<lparr>confidence = 0, found = False, extracted = None\<rparr>"
  by (simp add: findPhoneInText_def phoneCandidates_def phonePatterns_def phoneMobile_def phoneTen_def
      phoneFormatted_def phoneCountry_def spaceOrDash_def sliceLast_def notFound_def
      rx_defs text_defs)


section \<open>The date matcher\<close>

lemma monthName_candidate:
  "map dateTextOf (matchAll (datePatterns ! 1) (str ''14 Jul 1995'')) = [str ''Jul'']"
  by (simp add: datePatterns_def monthName_def numericDate_def lit_def ci_def dateSep_def
      spaceOrColon_def dateTextOf_def rx_defs text_defs)

lemma date_matches:
  "map dateTextOf (matchAll (datePatterns ! 0) (str ''14 Jul 1995'')) = []"
  "map dateTextOf (matchAll (datePatterns ! 2) (str ''14 Jul 1995'')) = []"
  "map dateTextOf (matchAll (datePatterns ! 3) (str ''14 Jul 1995'')) = []"
  "map dateTextOf (matchAll (datePatterns ! 4) (str ''14 Jul 1995'')) = []"
  by (simp_all add: datePatterns_def monthName_def numericDate_def lit_def ci_def dateSep_def
      spaceOrColon_def dateTextOf_def rx_defs text_defs)

text \<open>
  C7. The claim expects \<^verbatim>\<open>found = true\<close> with confidence at least 0.86 for the declared
  date \<^verbatim>\<open>1995-07-14\<close> and a text containing \<^verbatim>\<open>14 Jul 1995\<close>. The second pattern matches
  \<^verbatim>\<open>14 Jul 1995\<close>, but its first capture group is the month name, so
  \<^verbatim>\<open>match[1] || match[0]\<close> compares the text \<^verbatim>\<open>Jul\<close>, which has no digit. With any comparer
  that scores \<^verbatim>\<open>19950714\<close> against the empty string below 0.6, the matcher returns
  \<^verbatim>\<open>found = false\<close> with confidence 0.
\<close>

theorem findDateInText_month_name:
  assumes "cmp (str ''19950714'') [] < 6 / 10"
  shows "findDateInText cmp (str ''1995-07-14'') (str ''14 Jul 1995'') =
    \<lparr>confidence = 0, found = False, extracted = None\<rparr>"
  using assms
  by (simp add: findDateInText_def datePatterns_def monthName_def numericDate_def lit_def ci_def
      dateSep_def spaceOrColon_def dateTextOf_def getSimilarity_def notFound_def rx_defs text_defs)

text \<open>
  With the bigram comparer, which scores the empty string 0.
\<close>

theorem findDateInText_month_name_witness:
  "findDateInText compareTwoStrings (str ''1995-07-14'') (str ''14 Jul 1995'') =
    \<lparr>confidence = 0, found = False, extracted = None\<rparr>"
  using findDateInText_month_name [of compareTwoStrings]
  by (simp add: compareTwoStrings_def str_def)


section \<open>A complete run\<close>

lemma card_text_normal:
  "normalizeText (str ''Government of India Asha Verma 1234 5678 9012'') =
     str ''government of india asha verma 1234 5678 9012''"
  by (simp add: text_defs)

lemma card_keywords: "keywordMatches (str ''government of india asha verma 1234 5678 9012'') = 3"
  unfolding keywordMatches_def aadhaarKeywords_def
  by (simp add: normalizeText_devanagari normalizeText_keywords) (simp add: str_def)

lemma card_number: "test aadhaarGrouped (str ''Government of India Asha Verma 1234 5678 9012'')"
  by (simp add: test_def exec_def matchAt_def aadhaarGrouped_def wordBefore_def wordAfter_def
      str_def digits_def opt_def isDigit_def isWord_def isSpace_def)

lemma card_is_aadhaar: "isAadhaar (isAadhaarDocument (str ''Government of India Asha Verma 1234 5678 9012''))"
  by (simp add: isAadhaarDocument_def card_text_normal card_keywords card_number aadhaarKeywords_def)

lemma card_name:
  "findNameInText cmp (str ''Asha Verma'') (str ''Government of India Asha Verma 1234 5678 9012'') t =
     \<lparr>confidence = 1, found = True, extracted = Some (str ''Asha Verma'')\<rparr>"
  unfolding findNameInText_def Let_def card_text_normal asha_normal
  by (simp add: str_def)

lemma card_id:
  "findAadhaarInText cmp (str ''123456789012'') (str ''Government of India Asha Verma 1234 5678 9012'') =
     \<lparr>confidence = 1, found = True, extracted = Some (str ''1234 5678 9012'')\<rparr>"
  by (simp add: findAadhaarInText_def aadhaarPatterns_def aadhaarGrouped_def rx_defs text_defs)

lemma card_dob:
  "findDateInText cmp (str ''1995-07-14'') (str ''Government of India Asha Verma 1234 5678 9012'') = notFound"
  by (simp add: findDateInText_def datePatterns_def monthName_def numericDate_def lit_def ci_def
      dateSep_def spaceOrColon_def dateTextOf_def rx_defs text_defs)

lemma card_phone:
  "findPhoneInText cmp (str ''9876543210'') (str ''Government of India Asha Verma 1234 5678 9012'') = notFound"
  by (simp add: findPhoneInText_def phonePatterns_def phoneMobile_def phoneTen_def
      phoneFormatted_def phoneCountry_def spaceOrDash_def sliceLast_def rx_defs text_defs)

text \<open>
  The scenario of the specification in which name and ID number match exactly and neither
  the date of birth nor the phone number occurs in the text: the overall status is
  \<^verbatim>\<open>warning\<close>, with any comparer.
\<close>

lemma card_scenario:
  "overallStatus (documentValidation (validateDocumentData cmp
      \<lparr>name = str ''Asha Verma'', dateOfBirth = str ''1995-07-14'',
       idNumber = str ''123456789012'', emergencyContact = str ''9876543210''\<rparr>
      (str ''image/jpeg'')
      (Ocr_result (Some (str ''Government of India Asha Verma 1234 5678 9012''))))) = St_warning"
proof -
  have "startsWith (str ''image/jpeg'') (str ''image/'')"
    by (simp add: str_def)
  then show ?thesis
    by (simp add: validateDocumentData_def Let_def card_is_aadhaar card_name card_id card_dob
        card_phone aggregate_def determineOverall_four nameValidation_def idNumberValidation_def
        dateOfBirthValidation_def phoneValidation_def notFound_def)
qed

end
